theory Spec2Isabelle
  imports Complex_Main "HOL-Library.Word"
begin

section \<open>Data model (src/types.ts, src/constants.ts)\<close>

text \<open>
  A TypeScript \<open>number\<close> is modelled as a \<^typ>\<open>real\<close>: the finite values, with exact
  arithmetic. Rounding is idealised, and the non-finite values (Infinity, NaN) are not
  values of the model; where the source can produce one (a division by zero) the model says
  so explicitly.

  The fields \<open>x\<close> and \<open>y\<close> of \<open>Position\<close> are called \<open>pos_x\<close> and \<open>pos_y\<close>, and the field
  \<open>size\<close> of \<open>OverlayConfig\<close> is called \<open>size'\<close>, since the plain names would hide
  variables and a constant of the logic.
\<close>

datatype Shape = Circle | Rectangle

record Position =
  pos_x :: real
  pos_y :: real

record Size =
  width :: real
  height :: real

record OverlayConfig =
  shape :: Shape
  position :: Position
  size' :: Size
  isVisible :: bool
  borderColor :: string
  borderWidth :: real
  zoomLevel :: real

definition INITIAL_OVERLAY_CONFIG :: OverlayConfig where
  "INITIAL_OVERLAY_CONFIG =
     \<lparr>shape = Circle,
      position = \<lparr>pos_x = 50, pos_y = 50\<rparr>,
      size' = \<lparr>width = 200, height = 200\<rparr>,
      isVisible = True,
      borderColor = ''#3b82f6'',
      borderWidth = 4,
      zoomLevel = 1\<rparr>"

definition MIN_SIZE :: real where
  "MIN_SIZE = 100"

definition MAX_SIZE :: real where
  "MAX_SIZE = 600"

section \<open>The gesture controller (src/hooks/useDraggableResizable.tsx)\<close>

text \<open>
  \<open>DOMRect\<close> holds the four fields of the container's bounding rectangle that the hook
  reads. \<open>MouseEvent\<close> holds the pointer's client coordinates.
\<close>

record DOMRect =
  rect_left :: real
  rect_top :: real
  rect_width :: real
  rect_height :: real

record MouseEvent =
  clientX :: real
  clientY :: real

datatype GestureType = Drag | Resize

text \<open>
  The hook's state: the two \<open>useState\<close> cells (\<open>position_state\<close>, \<open>size_state\<close>) and the
  object behind \<open>stateRef\<close> (\<open>st_position\<close>, \<open>st_size\<close>, \<open>isDragging\<close>, \<open>isResizing\<close>,
  \<open>dragOffset\<close>, \<open>containerRect\<close>; \<open>None\<close> is \<open>null\<close>).
\<close>

record Hook =
  position_state :: Position
  size_state :: Size
  st_position :: Position
  st_size :: Size
  isDragging :: bool
  isResizing :: bool
  dragOffset :: Position
  containerRect :: "DOMRect option"

definition useDraggableResizable :: "Position \<Rightarrow> Size \<Rightarrow> Hook" where
  "useDraggableResizable initialPosition initialSize =
     \<lparr>position_state = initialPosition,
      size_state = initialSize,
      st_position = initialPosition,
      st_size = initialSize,
      isDragging = False,
      isResizing = False,
      dragOffset = \<lparr>pos_x = 0, pos_y = 0\<rparr>,
      containerRect = None\<rparr>"

text \<open>
  \<open>handleMouseMove\<close>. The first argument is \<open>containerRef.current\<close>: \<open>None\<close> when the
  container element is missing, \<open>Some r\<close> when it is mounted and
  \<open>getBoundingClientRect()\<close> returns \<open>r\<close>. The result is the new hook state and the
  arguments of the call of \<open>onUpdate\<close>, if the handler makes one.
\<close>

definition handleMouseMove ::
  "DOMRect option \<Rightarrow> MouseEvent \<Rightarrow> Hook \<Rightarrow> Hook \<times> (Position \<times> Size) option" where
  "handleMouseMove containerRef e state =
     (if \<not> isDragging state \<and> \<not> isResizing state then (state, None)
      else
        let (rect_opt, state1) =
              (case containerRect state of
                 Some r \<Rightarrow> (Some r, state)
               | None \<Rightarrow>
                   (case containerRef of
                      Some r \<Rightarrow> (Some r, state\<lparr>containerRect := Some r\<rparr>)
                    | None \<Rightarrow> (None, state)))
        in
          case rect_opt of
            None \<Rightarrow> (state1, None)
          | Some rect \<Rightarrow>
              if isDragging state1 then
                let newX = clientX e - pos_x (dragOffset state1);
                    newY = clientY e - pos_y (dragOffset state1);
                    newX = max 0 (min newX (rect_width rect - width (st_size state1)));
                    newY = max 0 (min newY (rect_height rect - height (st_size state1)));
                    newPos = \<lparr>pos_x = newX, pos_y = newY\<rparr>
                in (state1\<lparr>st_position := newPos, position_state := newPos\<rparr>,
                    Some (newPos, st_size state1))
              else if isResizing state1 then
                let absoluteLeft = rect_left rect + pos_x (st_position state1);
                    absoluteTop = rect_top rect + pos_y (st_position state1);
                    newWidth = clientX e - absoluteLeft;
                    newHeight = clientY e - absoluteTop;
                    newWidth = max MIN_SIZE (min newWidth MAX_SIZE);
                    newHeight = max MIN_SIZE (min newHeight MAX_SIZE);
                    newWidth =
                      (if pos_x (st_position state1) + newWidth > rect_width rect
                       then rect_width rect - pos_x (st_position state1) else newWidth);
                    newHeight =
                      (if pos_y (st_position state1) + newHeight > rect_height rect
                       then rect_height rect - pos_y (st_position state1) else newHeight);
                    newSize = \<lparr>width = newWidth, height = newHeight\<rparr>
                in (state1\<lparr>st_size := newSize, size_state := newSize\<rparr>,
                    Some (st_position state1, newSize))
              else (state1, None))"

definition handleMouseUp :: "Hook \<Rightarrow> Hook" where
  "handleMouseUp state =
     state\<lparr>isDragging := False, isResizing := False, containerRect := None\<rparr>"

definition handleMouseDown :: "DOMRect option \<Rightarrow> MouseEvent \<Rightarrow> GestureType \<Rightarrow> Hook \<Rightarrow> Hook" where
  "handleMouseDown containerRef e kind state =
     (case containerRef of
        None \<Rightarrow> state
      | Some r \<Rightarrow>
          let state1 = state\<lparr>containerRect := Some r\<rparr>
          in if kind = Drag then
               state1\<lparr>isDragging := True,
                      dragOffset := \<lparr>pos_x = clientX e - pos_x (st_position state1),
                                     pos_y = clientY e - pos_y (st_position state1)\<rparr>\<rparr>
             else state1\<lparr>isResizing := True\<rparr>)"

section \<open>The shared configuration (src/App.tsx)\<close>

text \<open>
  \<open>updateOverlayConfig\<close> is the updater passed to \<open>setOverlayConfig\<close>: it maps the
  previous configuration to the next one.
\<close>

definition updateOverlayConfig :: "Position \<Rightarrow> Size \<Rightarrow> OverlayConfig \<Rightarrow> OverlayConfig" where
  "updateOverlayConfig pos sz prev = prev\<lparr>position := pos, size' := sz\<rparr>"

text \<open>
  The hook's \<open>onUpdate\<close> is \<open>updateOverlayConfig\<close> (through the \<open>onUpdateConfig\<close> property of
  \<open>CameraOverlay\<close>); \<open>onUpdate\<close> applies the call a handler made, if any, and \<open>pointerMove\<close>
  is one pointer-move event seen by the hook and the configuration together.
\<close>

definition onUpdate :: "(Position \<times> Size) option \<Rightarrow> OverlayConfig \<Rightarrow> OverlayConfig" where
  "onUpdate call cfg =
     (case call of None \<Rightarrow> cfg | Some (pos, sz) \<Rightarrow> updateOverlayConfig pos sz cfg)"

definition pointerMove ::
  "DOMRect option \<Rightarrow> MouseEvent \<Rightarrow> Hook \<times> OverlayConfig \<Rightarrow> Hook \<times> OverlayConfig" where
  "pointerMove containerRef e hc =
     (let (state', call) = handleMouseMove containerRef e (fst hc)
      in (state', onUpdate call (snd hc)))"

section \<open>The recording session (src/App.tsx)\<close>

text \<open>
  A \<open>Blob\<close> is its bytes and its type string; \<open>blob_size\<close> is its \<open>size\<close> property and
  \<open>new_Blob\<close> is the constructor \<open>new Blob(parts, {type})\<close>, which concatenates the
  parts in the order of the array.
\<close>

record Blob =
  blob_data :: "8 word list"
  blob_type :: string

definition blob_size :: "Blob \<Rightarrow> nat" where
  "blob_size b = length (blob_data b)"

definition new_Blob :: "Blob list \<Rightarrow> string \<Rightarrow> Blob" where
  "new_Blob parts ty = \<lparr>blob_data = concat (map blob_data parts), blob_type = ty\<rparr>"

definition RECORDING_MIME_TYPE :: string where
  "RECORDING_MIME_TYPE = ''video/webm; codecs=vp9''"

text \<open>
  \<open>Recorder\<close> is the \<open>MediaRecorder\<close> that one call of \<open>handleStartRecording\<close> creates,
  with the \<open>chunks\<close> array that its two handlers close over. \<open>recorder_state\<close> is its
  \<open>state\<close> property. \<open>stopQueued\<close> counts the tasks that calls of \<open>stop()\<close> have queued and
  that have not run yet: each delivers the last data and then fires the \<open>stop\<close> event.
\<close>

datatype RecordingState = Inactive | Recording | Paused

record Recorder =
  recorder_state :: RecordingState
  chunks :: "Blob list"
  stopQueued :: nat

text \<open>
  \<open>recorder_stop\<close> is the method \<open>MediaRecorder.stop()\<close>: on an inactive recorder it does
  nothing; otherwise it sets the state to inactive at once and queues the task.
\<close>

definition recorder_stop :: "Recorder \<Rightarrow> Recorder" where
  "recorder_stop r =
     (if recorder_state r = Inactive then r
      else r\<lparr>recorder_state := Inactive, stopQueued := Suc (stopQueued r)\<rparr>)"

text \<open>
  The session keeps the cells of \<open>App\<close> that recording reads and writes: the \<open>isRecording\<close>,
  \<open>recordedBlob\<close> and \<open>error\<close> state and \<open>mediaRecorderRef.current\<close> (\<open>None\<close> is \<open>null\<close>). The
  streams, the audio context and the compositor are objects outside this record.
\<close>

record Session =
  isRecording :: bool
  recordedBlob :: "Blob option"
  error :: "string option"
  mediaRecorderRef :: "Recorder option"

definition initial_session :: Session where
  "initial_session =
     \<lparr>isRecording = False, recordedBlob = None, error = None, mediaRecorderRef = None\<rparr>"

definition stopAllStreams :: "Session \<Rightarrow> Session" where
  "stopAllStreams s = s\<lparr>isRecording := False\<rparr>"

text \<open>
  \<open>handleStartRecording\<close>: the argument is the message of the exception that a step of the
  \<open>try\<close> block throws (the display capture, the playback, the audio graph, the compositor,
  the creation of the recorder), or \<open>None\<close> when every step succeeds. A step that throws
  does so before the recorder is started and stored; then the \<open>catch\<close> block runs.
\<close>

definition handleStartRecording :: "string option \<Rightarrow> Session \<Rightarrow> Session" where
  "handleStartRecording thrown s =
     (let s1 = s\<lparr>error := None, recordedBlob := None\<rparr>
      in case thrown of
           None \<Rightarrow>
             s1\<lparr>mediaRecorderRef :=
                   Some \<lparr>recorder_state = Recording, chunks = [], stopQueued = 0\<rparr>,
                 isRecording := True\<rparr>
         | Some message \<Rightarrow>
             stopAllStreams (s1\<lparr>error := Some (''Failed to start recording. '' @ message)\<rparr>))"

definition ondataavailable :: "Blob \<Rightarrow> Recorder \<Rightarrow> Recorder" where
  "ondataavailable e_data r =
     (if blob_size e_data > 0 then r\<lparr>chunks := chunks r @ [e_data]\<rparr> else r)"

definition onstop :: "Recorder \<Rightarrow> Session \<Rightarrow> Session" where
  "onstop r s =
     (let blob = new_Blob (chunks r) RECORDING_MIME_TYPE
      in stopAllStreams (s\<lparr>recordedBlob := Some blob\<rparr>))"

definition handleStopRecording :: "Session \<Rightarrow> Session" where
  "handleStopRecording s =
     (case mediaRecorderRef s of
        None \<Rightarrow> s
      | Some r \<Rightarrow>
          if recorder_state r \<noteq> Inactive
          then s\<lparr>mediaRecorderRef := Some (recorder_stop r)\<rparr>
          else s)"

text \<open>
  The events of the recorder, as the browser delivers them to the two handlers:
  \<open>dataavailable\<close> with a blob, and \<open>stop\<close>, which ends a queued stop task and is not
  fired when none is queued.
\<close>

datatype RecorderEvent = DataAvailable Blob | StopEvent

definition recorderEvent :: "RecorderEvent \<Rightarrow> Session \<Rightarrow> Session" where
  "recorderEvent ev s =
     (case mediaRecorderRef s of
        None \<Rightarrow> s
      | Some r \<Rightarrow>
          (case ev of
             DataAvailable d \<Rightarrow> s\<lparr>mediaRecorderRef := Some (ondataavailable d r)\<rparr>
           | StopEvent \<Rightarrow>
               if stopQueued r = 0 then s
               else onstop r
                      (s\<lparr>mediaRecorderRef := Some (r\<lparr>stopQueued := stopQueued r - 1\<rparr>)\<rparr>)))"

fun recorderEvents :: "RecorderEvent list \<Rightarrow> Session \<Rightarrow> Session" where
  "recorderEvents [] s = s"
| "recorderEvents (ev # evs) s = recorderEvents evs (recorderEvent ev s)"

text \<open>
  The specification's names for the states of a session, read off the code's state: a
  session is live while its recorder is not inactive, stopping while a stop task is queued,
  and idle otherwise (also when no recorder was ever created).
\<close>

datatype Phase = Idle | Live | Stopping

definition phase :: "Session \<Rightarrow> Phase" where
  "phase s =
     (case mediaRecorderRef s of
        None \<Rightarrow> Idle
      | Some r \<Rightarrow>
          if recorder_state r \<noteq> Inactive then Live
          else if stopQueued r > 0 then Stopping
          else Idle)"

definition pendingStops :: "Session \<Rightarrow> nat" where
  "pendingStops s = (case mediaRecorderRef s of None \<Rightarrow> 0 | Some r \<Rightarrow> stopQueued r)"

section \<open>The drawing surface (the Canvas 2D interface, as the compositor uses it)\<close>

text \<open>
  A path is the list of the shapes added to it since \<open>beginPath()\<close>; the compositor only
  adds ellipses (centre, radii, rotation, start and end angle). A clipping region is the
  list of the paths it was intersected with; the empty list is the whole surface.
\<close>

datatype PathOp = Ellipse real real real real real real real

type_synonym Path = "PathOp list"

datatype ImageSource = ScreenVideo | CameraVideo

type_synonym Rect = "real \<times> real \<times> real \<times> real"

text \<open>
  What a painting call puts on the surface, with the drawing state it used: the fill or
  stroke style, the line width, the path stroked, the source rectangle of an image (\<open>None\<close>
  for the whole image) and its destination rectangle. \<open>Painted clip op\<close> is one such call
  made while \<open>clip\<close> was the clipping region.
\<close>

datatype PaintOp =
    FillRect string Rect
  | DrawImage ImageSource "Rect option" Rect
  | Stroke string real Path
  | StrokeRect string real Rect

datatype Painted = Painted "Path list" PaintOp

text \<open>
  The context: its drawing state (styles, line width, clipping region), the current path,
  the stack of \<open>save()\<close>, and the calls painted so far, oldest first.
\<close>

record Context2D =
  fillStyle :: string
  strokeStyle :: string
  lineWidth :: real
  clipRegion :: "Path list"
  currentPath :: Path
  savedStates :: "(string \<times> string \<times> real \<times> Path list) list"
  painted :: "Painted list"

definition default_context :: "Painted list \<Rightarrow> Context2D" where
  "default_context calls =
     \<lparr>fillStyle = ''#000000'', strokeStyle = ''#000000'', lineWidth = 1,
      clipRegion = [], currentPath = [], savedStates = [], painted = calls\<rparr>"

definition set_fillStyle :: "string \<Rightarrow> Context2D \<Rightarrow> Context2D" where
  "set_fillStyle v c = c\<lparr>fillStyle := v\<rparr>"

definition set_strokeStyle :: "string \<Rightarrow> Context2D \<Rightarrow> Context2D" where
  "set_strokeStyle v c = c\<lparr>strokeStyle := v\<rparr>"

text \<open>The setter of \<open>lineWidth\<close> ignores a value that is not positive.\<close>

definition set_lineWidth :: "real \<Rightarrow> Context2D \<Rightarrow> Context2D" where
  "set_lineWidth v c = (if 0 < v then c\<lparr>lineWidth := v\<rparr> else c)"

definition paint :: "PaintOp \<Rightarrow> Context2D \<Rightarrow> Context2D" where
  "paint p c = c\<lparr>painted := painted c @ [Painted (clipRegion c) p]\<rparr>"

definition fillRect :: "real \<Rightarrow> real \<Rightarrow> real \<Rightarrow> real \<Rightarrow> Context2D \<Rightarrow> Context2D" where
  "fillRect x y w h c = paint (FillRect (fillStyle c) (x, y, w, h)) c"

definition drawImage5 ::
  "ImageSource \<Rightarrow> real \<Rightarrow> real \<Rightarrow> real \<Rightarrow> real \<Rightarrow> Context2D \<Rightarrow> Context2D" where
  "drawImage5 img dx dy dw dh c = paint (DrawImage img None (dx, dy, dw, dh)) c"

definition drawImage9 ::
  "ImageSource \<Rightarrow> real \<Rightarrow> real \<Rightarrow> real \<Rightarrow> real \<Rightarrow> real \<Rightarrow> real \<Rightarrow> real \<Rightarrow> real \<Rightarrow>
   Context2D \<Rightarrow> Context2D" where
  "drawImage9 img sx sy sw sh dx dy dw dh c =
     paint (DrawImage img (Some (sx, sy, sw, sh)) (dx, dy, dw, dh)) c"

definition save :: "Context2D \<Rightarrow> Context2D" where
  "save c =
     c\<lparr>savedStates := (fillStyle c, strokeStyle c, lineWidth c, clipRegion c) # savedStates c\<rparr>"

definition restore :: "Context2D \<Rightarrow> Context2D" where
  "restore c =
     (case savedStates c of
        [] \<Rightarrow> c
      | (f, s, l, r) # rest \<Rightarrow>
          c\<lparr>fillStyle := f, strokeStyle := s, lineWidth := l, clipRegion := r,
            savedStates := rest\<rparr>)"

definition beginPath :: "Context2D \<Rightarrow> Context2D" where
  "beginPath c = c\<lparr>currentPath := []\<rparr>"

text \<open>
  \<open>Math.PI\<close> is the double nearest to the number pi, which is this fraction exactly.
\<close>

definition Math_PI :: real where
  "Math_PI = 884279719003555 / 281474976710656"

text \<open>
  What stops a frame of the model. \<open>IndexSizeError\<close> is the exception that \<open>ellipse\<close>
  throws for a negative radius. \<open>NotFinite\<close> says that a quotient of the frame has the
  divisor zero, so that the source computes with Infinity or NaN; the model does not go on
  from there. \<open>NoContext\<close> is the error of the constructor.
\<close>

datatype DrawError = IndexSizeError | NotFinite | NoContext

definition ellipse ::
  "real \<Rightarrow> real \<Rightarrow> real \<Rightarrow> real \<Rightarrow> real \<Rightarrow> real \<Rightarrow> real \<Rightarrow> Context2D \<Rightarrow>
   DrawError + Context2D" where
  "ellipse cx cy rx ry rotation startAngle endAngle c =
     (if rx < 0 \<or> ry < 0 then Inl IndexSizeError
      else Inr (c\<lparr>currentPath :=
                    currentPath c @ [Ellipse cx cy rx ry rotation startAngle endAngle]\<rparr>))"

definition clip :: "Context2D \<Rightarrow> Context2D" where
  "clip c = c\<lparr>clipRegion := clipRegion c @ [currentPath c]\<rparr>"

definition stroke :: "Context2D \<Rightarrow> Context2D" where
  "stroke c = paint (Stroke (strokeStyle c) (lineWidth c) (currentPath c)) c"

definition strokeRect :: "real \<Rightarrow> real \<Rightarrow> real \<Rightarrow> real \<Rightarrow> Context2D \<Rightarrow> Context2D" where
  "strokeRect x y w h c = paint (StrokeRect (strokeStyle c) (lineWidth c) (x, y, w, h)) c"

text \<open>
  The quotient \<open>a / b\<close> of two numbers of the source, where it is a finite number.
\<close>

definition quotient :: "real \<Rightarrow> real \<Rightarrow> DrawError + real" where
  "quotient a b = (if b = 0 then Inl NotFinite else Inr (a / b))"

section \<open>The compositor (src/unnamed/part_000, imported as utils/compositor)\<close>

text \<open>
  A video element, as far as the compositor reads it, and what one call of \<open>draw\<close> reads
  from outside: the two video elements and the value of \<open>getConfig()\<close>.
\<close>

record Video =
  readyState :: nat
  videoWidth :: real
  videoHeight :: real

record FrameInput =
  screenVideo :: Video
  cameraVideo :: Video
  getConfig :: OverlayConfig

text \<open>
  The window's animation frame callbacks: the list of the pending ones, each with its
  handle and with the \<open>containerWidth\<close> and \<open>containerHeight\<close> its \<open>draw\<close> closure holds,
  and the last handle given out. Handles start at one.
\<close>

record AnimationFrames =
  callbacks :: "(nat \<times> real \<times> real) list"
  lastHandle :: nat

definition requestAnimationFrame ::
  "real \<times> real \<Rightarrow> AnimationFrames \<Rightarrow> nat \<times> AnimationFrames" where
  "requestAnimationFrame cb w =
     (Suc (lastHandle w),
      w\<lparr>callbacks := callbacks w @ [(Suc (lastHandle w), cb)],
        lastHandle := Suc (lastHandle w)\<rparr>)"

definition cancelAnimationFrame :: "nat \<Rightarrow> AnimationFrames \<Rightarrow> AnimationFrames" where
  "cancelAnimationFrame h w = w\<lparr>callbacks := filter (\<lambda>cb. fst cb \<noteq> h) (callbacks w)\<rparr>"

text \<open>
  The fields of \<open>VideoCompositor\<close>; \<open>canvas_width\<close> and \<open>canvas_height\<close> are the \<open>width\<close> and
  \<open>height\<close> of its canvas, and setting one of them resets the context.
\<close>

record Compositor =
  canvas_width :: real
  canvas_height :: real
  ctx :: Context2D
  animationFrameId :: "nat option"
  isActive :: bool

definition new_VideoCompositor :: "real \<Rightarrow> real \<Rightarrow> Context2D option \<Rightarrow> DrawError + Compositor" where
  "new_VideoCompositor w h context =
     (case context of
        None \<Rightarrow> Inl NoContext
      | Some c \<Rightarrow>
          Inr \<lparr>canvas_width = w, canvas_height = h, ctx = c,
               animationFrameId = None, isActive = False\<rparr>)"

definition set_canvas_width :: "real \<Rightarrow> Compositor \<Rightarrow> Compositor" where
  "set_canvas_width v this =
     this\<lparr>canvas_width := v, ctx := default_context (painted (ctx this))\<rparr>"

definition set_canvas_height :: "real \<Rightarrow> Compositor \<Rightarrow> Compositor" where
  "set_canvas_height v this =
     this\<lparr>canvas_height := v, ctx := default_context (painted (ctx this))\<rparr>"

text \<open>
  Step 3 of \<open>draw\<close>, the body of \<open>if (config.isVisible && cameraVideo.readyState >= 2)\<close>, on
  the context.
\<close>

definition drawCameraOverlay ::
  "real \<Rightarrow> real \<Rightarrow> real \<Rightarrow> real \<Rightarrow> Video \<Rightarrow> OverlayConfig \<Rightarrow> Context2D \<Rightarrow>
   DrawError + Context2D" where
  "drawCameraOverlay screenWidth screenHeight containerWidth containerHeight camera config c =
     (case quotient screenWidth containerWidth of
        Inl err \<Rightarrow> Inl err
      | Inr scaleX \<Rightarrow>
     (case quotient screenHeight containerHeight of
        Inl err \<Rightarrow> Inl err
      | Inr scaleY \<Rightarrow>
          let camX = pos_x (position config) * scaleX;
              camY = pos_y (position config) * scaleY;
              camW = width (size' config) * scaleX;
              camH = height (size' config) * scaleY;
              c1 = save c
          in
            case (if shape config = Circle then
                    let c2 = beginPath c1;
                        centerX = camX + camW / 2;
                        centerY = camY + camH / 2;
                        radiusX = camW / 2;
                        radiusY = camH / 2
                    in (case ellipse centerX centerY radiusX radiusY 0 0 (2 * Math_PI) c2 of
                          Inl err \<Rightarrow> Inl err
                        | Inr c3 \<Rightarrow> Inr (clip c3))
                  else Inr c1) of
              Inl err \<Rightarrow> Inl err
            | Inr c4 \<Rightarrow>
                let vidW = videoWidth camera;
                    vidH = videoHeight camera;
                    zoom = max 1 (zoomLevel config);
                    srcW = vidW / zoom;
                    srcH = vidH / zoom;
                    srcX = (vidW - srcW) / 2;
                    srcY = (vidH - srcH) / 2;
                    c5 = drawImage9 CameraVideo srcX srcY srcW srcH camX camY camW camH c4;
                    c6 = (if borderWidth config > 0 then
                            let c7 = set_strokeStyle (borderColor config) c5;
                                c8 = set_lineWidth (borderWidth config * scaleX) c7
                            in if shape config = Circle then stroke c8
                               else strokeRect camX camY camW camH c8
                          else c5)
                in Inr (restore c6)))"

text \<open>
  Step 1 of \<open>draw\<close>: the canvas takes the resolution of the screen video when it differs.
\<close>

definition syncCanvasSize :: "real \<Rightarrow> real \<Rightarrow> Compositor \<Rightarrow> Compositor" where
  "syncCanvasSize screenWidth screenHeight this =
     (if canvas_width this \<noteq> screenWidth \<or> canvas_height this \<noteq> screenHeight
      then set_canvas_height screenHeight (set_canvas_width screenWidth this)
      else this)"

text \<open>
  The closure \<open>draw\<close> of \<open>start\<close>, with the \<open>containerWidth\<close> and \<open>containerHeight\<close> it
  holds. It works on the compositor and on the window's animation frames.
\<close>

definition draw ::
  "real \<Rightarrow> real \<Rightarrow> FrameInput \<Rightarrow> Compositor \<times> AnimationFrames \<Rightarrow>
   DrawError + Compositor \<times> AnimationFrames" where
  "draw containerWidth containerHeight inp cw =
     (let this = fst cw; window = snd cw
      in if \<not> isActive this then Inr (this, window)
         else
           let config = getConfig inp
           in if readyState (screenVideo inp) < 2 then
                let (h, window1) = requestAnimationFrame (containerWidth, containerHeight) window
                in Inr (this\<lparr>animationFrameId := Some h\<rparr>, window1)
              else
                let screenWidth = videoWidth (screenVideo inp);
                    screenHeight = videoHeight (screenVideo inp);
                    this1 = syncCanvasSize screenWidth screenHeight this;
                    c1 = set_fillStyle ''#000'' (ctx this1);
                    c2 = fillRect 0 0 screenWidth screenHeight c1;
                    c3 = drawImage5 ScreenVideo 0 0 screenWidth screenHeight c2
                in case (if isVisible config \<and> readyState (cameraVideo inp) \<ge> 2
                         then drawCameraOverlay screenWidth screenHeight containerWidth
                                containerHeight (cameraVideo inp) config c3
                         else Inr c3) of
                     Inl err \<Rightarrow> Inl err
                   | Inr c4 \<Rightarrow>
                       let (h, window1) =
                             requestAnimationFrame (containerWidth, containerHeight) window
                       in Inr (this1\<lparr>ctx := c4, animationFrameId := Some h\<rparr>, window1))"

definition start ::
  "real \<Rightarrow> real \<Rightarrow> FrameInput \<Rightarrow> Compositor \<times> AnimationFrames \<Rightarrow>
   DrawError + Compositor \<times> AnimationFrames" where
  "start containerWidth containerHeight inp cw =
     draw containerWidth containerHeight inp ((fst cw)\<lparr>isActive := True\<rparr>, snd cw)"

text \<open>
  \<open>stop\<close>. The test \<open>if (this.animationFrameId)\<close> fails for \<open>null\<close> and for the number zero.
\<close>

definition stop :: "Compositor \<times> AnimationFrames \<Rightarrow> Compositor \<times> AnimationFrames" where
  "stop cw =
     (let this = (fst cw)\<lparr>isActive := False\<rparr>; window = snd cw
      in case animationFrameId this of
           None \<Rightarrow> (this, window)
         | Some h \<Rightarrow>
             if h \<noteq> 0 then (this, cancelAnimationFrame h window) else (this, window))"

text \<open>
  One display refresh: the window takes its list of pending callbacks, empties it, and
  runs them in order; each is a \<open>draw\<close> closure.
\<close>

fun runCallbacks ::
  "(nat \<times> real \<times> real) list \<Rightarrow> FrameInput \<Rightarrow> Compositor \<times> AnimationFrames \<Rightarrow>
   DrawError + Compositor \<times> AnimationFrames" where
  "runCallbacks [] inp cw = Inr cw"
| "runCallbacks (cb # cbs) inp cw =
     (case draw (fst (snd cb)) (snd (snd cb)) inp cw of
        Inl err \<Rightarrow> Inl err
      | Inr cw1 \<Rightarrow> runCallbacks cbs inp cw1)"

definition tick ::
  "FrameInput \<Rightarrow> Compositor \<times> AnimationFrames \<Rightarrow> DrawError + Compositor \<times> AnimationFrames" where
  "tick inp cw = runCallbacks (callbacks (snd cw)) inp (fst cw, (snd cw)\<lparr>callbacks := []\<rparr>)"

text \<open>
  Views of a painted call: the source crop and the destination rectangle of a drawing of the
  camera, and the style, line width and outline of a stroke.
\<close>

fun cameraCrop :: "Painted \<Rightarrow> Rect option" where
  "cameraCrop (Painted r (DrawImage CameraVideo src dst)) = src"
| "cameraCrop _ = None"

fun cameraDestination :: "Painted \<Rightarrow> Rect option" where
  "cameraDestination (Painted r (DrawImage CameraVideo src dst)) = Some dst"
| "cameraDestination _ = None"

datatype Outline = PathOutline Path | RectOutline Rect

fun strokeOf :: "Painted \<Rightarrow> (string \<times> real \<times> Outline) option" where
  "strokeOf (Painted r (Stroke style w p)) = Some (style, w, PathOutline p)"
| "strokeOf (Painted r (StrokeRect style w rect)) = Some (style, w, RectOutline rect)"
| "strokeOf _ = None"

text \<open>The calls painted by the step from \<open>before\<close> to \<open>after\<close>.\<close>

definition newlyPainted :: "Compositor \<Rightarrow> Compositor \<Rightarrow> Painted list" where
  "newlyPainted before after =
     drop (length (painted (ctx before))) (painted (ctx after))"

section \<open>Notions used to state the results\<close>

text \<open>
  The geometry of one overlay frame, as \<open>drawCameraOverlay\<close> computes it: the elliptical
  path inscribed in the destination rectangle, the destination rectangle, and the source
  crop of the camera frame.
\<close>

definition overlayPath :: "real \<Rightarrow> real \<Rightarrow> OverlayConfig \<Rightarrow> Path" where
  "overlayPath scaleX scaleY config =
     [Ellipse (pos_x (position config) * scaleX + width (size' config) * scaleX / 2)
              (pos_y (position config) * scaleY + height (size' config) * scaleY / 2)
              (width (size' config) * scaleX / 2) (height (size' config) * scaleY / 2)
              0 0 (2 * Math_PI)]"

definition overlayDestination :: "real \<Rightarrow> real \<Rightarrow> OverlayConfig \<Rightarrow> Rect" where
  "overlayDestination scaleX scaleY config =
     (pos_x (position config) * scaleX, pos_y (position config) * scaleY,
      width (size' config) * scaleX, height (size' config) * scaleY)"

definition cameraSourceCrop :: "Video \<Rightarrow> OverlayConfig \<Rightarrow> Rect" where
  "cameraSourceCrop camera config =
     ((videoWidth camera - videoWidth camera / max 1 (zoomLevel config)) / 2,
      (videoHeight camera - videoHeight camera / max 1 (zoomLevel config)) / 2,
      videoWidth camera / max 1 (zoomLevel config),
      videoHeight camera / max 1 (zoomLevel config))"


text \<open>
  Concrete inputs. \<open>spec_rect\<close> is the 800 by 450 container of the specification's example
  and \<open>spec_hook\<close> the hook for its overlay at (700, 400) of size 200 by 200; \<open>narrow_rect\<close>
  is the container in a narrow window, lower than the initial overlay; \<open>zero_rect\<close> is a
  container of no size; \<open>initial_hook\<close> is the hook for the initial configuration.
\<close>

definition spec_rect :: DOMRect where
  "spec_rect = \<lparr>rect_left = 0, rect_top = 0, rect_width = 800, rect_height = 450\<rparr>"

definition narrow_rect :: DOMRect where
  "narrow_rect = \<lparr>rect_left = 0, rect_top = 0, rect_width = 320, rect_height = 180\<rparr>"

definition zero_rect :: DOMRect where
  "zero_rect = \<lparr>rect_left = 0, rect_top = 0, rect_width = 0, rect_height = 0\<rparr>"

definition initial_hook :: Hook where
  "initial_hook =
     useDraggableResizable (position INITIAL_OVERLAY_CONFIG) (size' INITIAL_OVERLAY_CONFIG)"

definition spec_hook :: Hook where
  "spec_hook =
     useDraggableResizable \<lparr>pos_x = 700, pos_y = 400\<rparr> \<lparr>width = 200, height = 200\<rparr>"

text \<open>
  A frame input with a 1920 by 1080 screen video, a 1280 by 720 camera video and the
  initial configuration at zoom level 2; a compositor as the constructor leaves it, the
  same compositor once \<open>start\<close> has set its flag, and a window with no pending callback.
\<close>

definition example_input :: FrameInput where
  "example_input =
     \<lparr>screenVideo = \<lparr>readyState = 4, videoWidth = 1920, videoHeight = 1080\<rparr>,
      cameraVideo = \<lparr>readyState = 4, videoWidth = 1280, videoHeight = 720\<rparr>,
      getConfig = INITIAL_OVERLAY_CONFIG\<lparr>zoomLevel := 2\<rparr>\<rparr>"

definition fresh_compositor :: Compositor where
  "fresh_compositor =
     \<lparr>canvas_width = 300, canvas_height = 150, ctx = default_context [],
      animationFrameId = None, isActive = False\<rparr>"

definition example_compositor :: Compositor where
  "example_compositor = fresh_compositor\<lparr>isActive := True\<rparr>"

definition example_window :: AnimationFrames where
  "example_window = \<lparr>callbacks = [], lastHandle = 0\<rparr>"

text \<open>Three delivered segments: two with data and an empty one.\<close>

definition segment_a :: Blob where
  "segment_a = \<lparr>blob_data = [1, 2], blob_type = RECORDING_MIME_TYPE\<rparr>"

definition segment_b :: Blob where
  "segment_b = \<lparr>blob_data = [3], blob_type = RECORDING_MIME_TYPE\<rparr>"

definition segment_empty :: Blob where
  "segment_empty = \<lparr>blob_data = [], blob_type = RECORDING_MIME_TYPE\<rparr>"

section \<open>The gesture controller: drag\<close>

lemma drag_move:
  assumes "isDragging state"
    and "containerRect state = Some rect \<or> (containerRect state = None \<and> containerRef = Some rect)"
  shows "snd (handleMouseMove containerRef e state) =
           Some (\<lparr>pos_x = max 0 (min (clientX e - pos_x (dragOffset state))
                                      (rect_width rect - width (st_size state))),
                   pos_y = max 0 (min (clientY e - pos_y (dragOffset state))
                                      (rect_height rect - height (st_size state)))\<rparr>,
                 st_size state)"
    and "st_position (fst (handleMouseMove containerRef e state)) =
           \<lparr>pos_x = max 0 (min (clientX e - pos_x (dragOffset state))
                                (rect_width rect - width (st_size state))),
             pos_y = max 0 (min (clientY e - pos_y (dragOffset state))
                                (rect_height rect - height (st_size state)))\<rparr>"
proof -
  from assms(2) show "snd (handleMouseMove containerRef e state) =
           Some (\<lparr>pos_x = max 0 (min (clientX e - pos_x (dragOffset state))
                                      (rect_width rect - width (st_size state))),
                   pos_y = max 0 (min (clientY e - pos_y (dragOffset state))
                                      (rect_height rect - height (st_size state)))\<rparr>,
                 st_size state)"
  proof
    assume "containerRect state = Some rect"
    with assms(1) show ?thesis by (simp add: handleMouseMove_def Let_def)
  next
    assume "containerRect state = None \<and> containerRef = Some rect"
    with assms(1) show ?thesis by (simp add: handleMouseMove_def Let_def)
  qed
  from assms(2) show "st_position (fst (handleMouseMove containerRef e state)) =
           \<lparr>pos_x = max 0 (min (clientX e - pos_x (dragOffset state))
                                (rect_width rect - width (st_size state))),
             pos_y = max 0 (min (clientY e - pos_y (dragOffset state))
                                (rect_height rect - height (st_size state)))\<rparr>"
  proof
    assume "containerRect state = Some rect"
    with assms(1) show ?thesis by (simp add: handleMouseMove_def Let_def)
  next
    assume "containerRect state = None \<and> containerRef = Some rect"
    with assms(1) show ?thesis by (simp add: handleMouseMove_def Let_def)
  qed
qed

text \<open>
  C1, as the code has it. For every pointer-move processed while a drag is active and the
  container's rectangle is at hand (cached, or read from the mounted container), whatever
  the pointer's coordinates, the handler publishes a position with
  \<open>0 \<le> x \<le> max 0 (containerWidth - width)\<close> and \<open>0 \<le> y \<le> max 0 (containerHeight - height)\<close>.
  When the overlay is no wider than the container this is \<open>0 \<le> x \<le> containerWidth - width\<close>
  (and the same for the height and \<open>y\<close>); when it is wider, \<open>x\<close> is 0. For a container of
  800 by 450, an overlay of 200 by 200 and the effective pointer position (1000, 1000) the
  published position is (600, 250).
\<close>

theorem drag_position_clamped:
  assumes "isDragging state"
    and "containerRect state = Some rect \<or> (containerRect state = None \<and> containerRef = Some rect)"
  shows "\<exists>newPos. snd (handleMouseMove containerRef e state) = Some (newPos, st_size state) \<and>
           st_position (fst (handleMouseMove containerRef e state)) = newPos \<and>
           0 \<le> pos_x newPos \<and> pos_x newPos \<le> max 0 (rect_width rect - width (st_size state)) \<and>
           0 \<le> pos_y newPos \<and> pos_y newPos \<le> max 0 (rect_height rect - height (st_size state)) \<and>
           (width (st_size state) \<le> rect_width rect \<longrightarrow>
              pos_x newPos \<le> rect_width rect - width (st_size state)) \<and>
           (height (st_size state) \<le> rect_height rect \<longrightarrow>
              pos_y newPos \<le> rect_height rect - height (st_size state)) \<and>
           (rect_width rect < width (st_size state) \<longrightarrow> pos_x newPos = 0) \<and>
           (rect_height rect < height (st_size state) \<longrightarrow> pos_y newPos = 0) \<and>
           (rect_width rect = 800 \<and> rect_height rect = 450 \<and>
            st_size state = \<lparr>width = 200, height = 200\<rparr> \<and>
            clientX e - pos_x (dragOffset state) = 1000 \<and>
            clientY e - pos_y (dragOffset state) = 1000 \<longrightarrow>
            newPos = \<lparr>pos_x = 600, pos_y = 250\<rparr>)"
proof -
  let ?x = "max 0 (min (clientX e - pos_x (dragOffset state)) (rect_width rect - width (st_size state)))"
  let ?y = "max 0 (min (clientY e - pos_y (dragOffset state)) (rect_height rect - height (st_size state)))"
  let ?p = "\<lparr>pos_x = ?x, pos_y = ?y\<rparr>"
  have 1: "snd (handleMouseMove containerRef e state) = Some (?p, st_size state)"
    by (rule drag_move(1) [OF assms])
  have 2: "st_position (fst (handleMouseMove containerRef e state)) = ?p"
    by (rule drag_move(2) [OF assms])
  have 3: "0 \<le> pos_x ?p \<and> pos_x ?p \<le> max 0 (rect_width rect - width (st_size state))"
    by simp
  have 4: "0 \<le> pos_y ?p \<and> pos_y ?p \<le> max 0 (rect_height rect - height (st_size state))"
    by simp
  have 5: "width (st_size state) \<le> rect_width rect \<longrightarrow>
              pos_x ?p \<le> rect_width rect - width (st_size state)"
    by simp
  have 6: "height (st_size state) \<le> rect_height rect \<longrightarrow>
              pos_y ?p \<le> rect_height rect - height (st_size state)"
    by simp
  have 7: "rect_width rect < width (st_size state) \<longrightarrow> pos_x ?p = 0"
    by simp
  have 8: "rect_height rect < height (st_size state) \<longrightarrow> pos_y ?p = 0"
    by simp
  have 9: "rect_width rect = 800 \<and> rect_height rect = 450 \<and>
            st_size state = \<lparr>width = 200, height = 200\<rparr> \<and>
            clientX e - pos_x (dragOffset state) = 1000 \<and>
            clientY e - pos_y (dragOffset state) = 1000 \<longrightarrow>
            ?p = \<lparr>pos_x = 600, pos_y = 250\<rparr>"
    by simp
  from 1 2 3 4 5 6 7 8 9 show ?thesis by blast
qed

text \<open>
  The specification's example: the overlay at (700, 400), grabbed at its top left corner
  and dragged to the pointer position (1000, 1000), lands at (600, 250).
\<close>

theorem drag_position_clamped_witness:
  "isDragging (handleMouseDown (Some spec_rect) \<lparr>clientX = 700, clientY = 400\<rparr> Drag spec_hook) \<and>
   containerRect (handleMouseDown (Some spec_rect) \<lparr>clientX = 700, clientY = 400\<rparr> Drag spec_hook) =
     Some spec_rect \<and>
   snd (handleMouseMove None \<lparr>clientX = 1000, clientY = 1000\<rparr>
          (handleMouseDown (Some spec_rect) \<lparr>clientX = 700, clientY = 400\<rparr> Drag spec_hook)) =
     Some (\<lparr>pos_x = 600, pos_y = 250\<rparr>, \<lparr>width = 200, height = 200\<rparr>)"
proof -
  let ?s = "handleMouseDown (Some spec_rect) \<lparr>clientX = 700, clientY = 400\<rparr> Drag spec_hook"
  let ?e = "\<lparr>clientX = 1000, clientY = 1000\<rparr>"
  have d: "isDragging ?s"
    by (simp add: handleMouseDown_def spec_hook_def useDraggableResizable_def)
  have c: "containerRect ?s = Some spec_rect"
    by (simp add: handleMouseDown_def spec_hook_def useDraggableResizable_def)
  have r: "containerRect ?s = Some spec_rect \<or> (containerRect ?s = None \<and> None = Some spec_rect)"
    using c by simp
  have sz: "st_size ?s = \<lparr>width = 200, height = 200\<rparr>"
    by (simp add: handleMouseDown_def spec_hook_def useDraggableResizable_def)
  have off: "dragOffset ?s = \<lparr>pos_x = 0, pos_y = 0\<rparr>"
    by (simp add: handleMouseDown_def spec_hook_def useDraggableResizable_def)
  have pre: "rect_width spec_rect = 800 \<and> rect_height spec_rect = 450 \<and>
      st_size ?s = \<lparr>width = 200, height = 200\<rparr> \<and>
      clientX ?e - pos_x (dragOffset ?s) = 1000 \<and> clientY ?e - pos_y (dragOffset ?s) = 1000"
    unfolding off sz by (simp add: spec_rect_def)
  from drag_position_clamped [OF d r, of ?e]
  obtain newPos where a: "snd (handleMouseMove None ?e ?s) = Some (newPos, st_size ?s)"
    and b: "rect_width spec_rect = 800 \<and> rect_height spec_rect = 450 \<and>
      st_size ?s = \<lparr>width = 200, height = 200\<rparr> \<and>
      clientX ?e - pos_x (dragOffset ?s) = 1000 \<and> clientY ?e - pos_y (dragOffset ?s) = 1000 \<longrightarrow>
      newPos = \<lparr>pos_x = 600, pos_y = 250\<rparr>"
    by blast
  from b pre have "newPos = \<lparr>pos_x = 600, pos_y = 250\<rparr>" by blast
  with a have "snd (handleMouseMove None ?e ?s) =
      Some (\<lparr>pos_x = 600, pos_y = 250\<rparr>, \<lparr>width = 200, height = 200\<rparr>)"
    unfolding sz by simp
  with d c show ?thesis by blast
qed

text \<open>
  The bound \<open>y \<le> containerHeight - height\<close> fails where the container is lower than the
  overlay: in a container of 320 by 180 the initial overlay of 200 by 200, dragged by ten
  pixels, is published at \<open>y = 0\<close>, while \<open>containerHeight - height\<close> is negative.
\<close>

theorem drag_position_clamped_counterexample:
  "snd (handleMouseMove None \<lparr>clientX = 70, clientY = 70\<rparr>
          (handleMouseDown (Some narrow_rect) \<lparr>clientX = 60, clientY = 60\<rparr> Drag initial_hook)) =
     Some (\<lparr>pos_x = 60, pos_y = 0\<rparr>, \<lparr>width = 200, height = 200\<rparr>) \<and>
   \<not> (pos_y \<lparr>pos_x = 60, pos_y = 0\<rparr> \<le>
        rect_height narrow_rect - height \<lparr>width = 200, height = 200\<rparr>)"
  by (simp add: handleMouseMove_def handleMouseDown_def initial_hook_def narrow_rect_def
      useDraggableResizable_def INITIAL_OVERLAY_CONFIG_def Let_def)

section \<open>The gesture controller: resize\<close>








section \<open>The gesture controller: missing bounds\<close>

text \<open>
  C7, as the code has it. If no rectangle is cached and the container element is missing
  when a pointer-move is processed, the handler changes nothing and publishes nothing, and
  the configuration stays as it is; a pointer-down without a container element changes
  nothing either. (A container of no size is a rectangle like any other.)
\<close>

theorem no_bounds_noop:
  assumes "containerRect state = None"
  shows "handleMouseMove None e state = (state, None) \<and>
         pointerMove None e (state, cfg) = (state, cfg) \<and>
         handleMouseDown None e kind state = state"
  using assms
  by (simp add: handleMouseMove_def handleMouseDown_def pointerMove_def onUpdate_def)


theorem no_bounds_noop_witness:
  "containerRect (initial_hook\<lparr>isDragging := True\<rparr>) = None \<and>
   handleMouseMove None \<lparr>clientX = 70, clientY = 70\<rparr> (initial_hook\<lparr>isDragging := True\<rparr>) =
     (initial_hook\<lparr>isDragging := True\<rparr>, None) \<and>
   handleMouseDown None \<lparr>clientX = 70, clientY = 70\<rparr> Drag initial_hook = initial_hook"
proof -
  have c: "containerRect (initial_hook\<lparr>isDragging := True\<rparr>) = None"
    by (simp add: initial_hook_def useDraggableResizable_def)
  have c0: "containerRect initial_hook = None"
    by (simp add: initial_hook_def useDraggableResizable_def)
  from no_bounds_noop [OF c] no_bounds_noop [OF c0] c show ?thesis by blast
qed

text \<open>
  With a container of no size the move is processed: a drag of the initial overlay moves it
  from (50, 50) to (0, 0) and publishes that position.
\<close>

theorem zero_size_container_counterexample:
  "rect_width zero_rect = 0 \<and> rect_height zero_rect = 0 \<and>
   st_position (handleMouseDown (Some zero_rect) \<lparr>clientX = 60, clientY = 60\<rparr> Drag initial_hook) =
     \<lparr>pos_x = 50, pos_y = 50\<rparr> \<and>
   st_position (fst (handleMouseMove None \<lparr>clientX = 70, clientY = 70\<rparr>
          (handleMouseDown (Some zero_rect) \<lparr>clientX = 60, clientY = 60\<rparr> Drag initial_hook))) =
     \<lparr>pos_x = 0, pos_y = 0\<rparr> \<and>
   snd (handleMouseMove None \<lparr>clientX = 70, clientY = 70\<rparr>
          (handleMouseDown (Some zero_rect) \<lparr>clientX = 60, clientY = 60\<rparr> Drag initial_hook)) =
     Some (\<lparr>pos_x = 0, pos_y = 0\<rparr>, \<lparr>width = 200, height = 200\<rparr>)"
  by (simp add: handleMouseMove_def handleMouseDown_def initial_hook_def zero_rect_def
      useDraggableResizable_def INITIAL_OVERLAY_CONFIG_def Let_def)


section \<open>Frame of a published update\<close>

text \<open>
  C10. Every position/size update published by the gesture controller replaces only the
  position and the size of the shared configuration: the shape, the visibility, the border
  colour, the border width and the zoom level are the ones it had before. This holds for
  the updater itself, whatever position and size it is given, and for every pointer-move
  event, whatever the hook's state, the container and the pointer.
\<close>

theorem updateOverlayConfig_frame:
  "shape (updateOverlayConfig pos sz prev) = shape prev \<and>
   isVisible (updateOverlayConfig pos sz prev) = isVisible prev \<and>
   borderColor (updateOverlayConfig pos sz prev) = borderColor prev \<and>
   borderWidth (updateOverlayConfig pos sz prev) = borderWidth prev \<and>
   zoomLevel (updateOverlayConfig pos sz prev) = zoomLevel prev \<and>
   position (updateOverlayConfig pos sz prev) = pos \<and>
   size' (updateOverlayConfig pos sz prev) = sz \<and>
   shape (snd (pointerMove containerRef e (state, prev))) = shape prev \<and>
   isVisible (snd (pointerMove containerRef e (state, prev))) = isVisible prev \<and>
   borderColor (snd (pointerMove containerRef e (state, prev))) = borderColor prev \<and>
   borderWidth (snd (pointerMove containerRef e (state, prev))) = borderWidth prev \<and>
   zoomLevel (snd (pointerMove containerRef e (state, prev))) = zoomLevel prev"
proof -
  have upd: "\<And>call. shape (onUpdate call prev) = shape prev \<and>
      isVisible (onUpdate call prev) = isVisible prev \<and>
      borderColor (onUpdate call prev) = borderColor prev \<and>
      borderWidth (onUpdate call prev) = borderWidth prev \<and>
      zoomLevel (onUpdate call prev) = zoomLevel prev"
    by (simp add: onUpdate_def updateOverlayConfig_def split: option.splits prod.splits)
  have mv: "snd (pointerMove containerRef e (state, prev)) =
      onUpdate (snd (handleMouseMove containerRef e state)) prev"
    by (simp add: pointerMove_def split: prod.splits)
  show ?thesis
    using upd [of "snd (handleMouseMove containerRef e state)"]
    by (simp add: mv) (simp add: updateOverlayConfig_def)
qed

section \<open>The recording session\<close>

lemma deliver_data:
  assumes "mediaRecorderRef s = Some r"
  shows "recorderEvents (map DataAvailable ds) s =
           s\<lparr>mediaRecorderRef := Some (r\<lparr>chunks := chunks r @ filter (\<lambda>d. 0 < blob_size d) ds\<rparr>)\<rparr>"
  using assms
proof (induction ds arbitrary: s r)
  case Nil
  then show ?case by simp
next
  case (Cons d ds)
  have "mediaRecorderRef (recorderEvent (DataAvailable d) s) = Some (ondataavailable d r)"
    using Cons.prems by (simp add: recorderEvent_def)
  from Cons.IH [OF this] show ?case
    using Cons.prems by (simp add: recorderEvent_def ondataavailable_def)
qed

text \<open>
  C4. From the start of a recording, the segments delivered before and after the stop
  request are kept in the chunk buffer in delivery order, those of length zero left out,
  and the artifact made when the \<open>stop\<close> event fires is the concatenation of the kept
  segments in that order, each as often as it was delivered.
\<close>

theorem chunks_in_delivery_order:
  "mediaRecorderRef (recorderEvents (map DataAvailable ds) (handleStartRecording None s)) =
     Some \<lparr>recorder_state = Recording, chunks = filter (\<lambda>d. 0 < blob_size d) ds, stopQueued = 0\<rparr> \<and>
   recordedBlob
     (recorderEvent StopEvent
        (recorderEvents (map DataAvailable ds')
           (handleStopRecording
              (recorderEvents (map DataAvailable ds) (handleStartRecording None s))))) =
     Some \<lparr>blob_data = concat (map blob_data (filter (\<lambda>d. 0 < blob_size d) (ds @ ds'))),
           blob_type = RECORDING_MIME_TYPE\<rparr>"
proof -
  let ?r0 = "\<lparr>recorder_state = Recording, chunks = [], stopQueued = 0\<rparr>"
  let ?s0 = "handleStartRecording None s"
  have r0: "mediaRecorderRef ?s0 = Some ?r0"
    by (simp add: handleStartRecording_def)
  let ?s1 = "recorderEvents (map DataAvailable ds) ?s0"
  have s1: "?s1 = ?s0\<lparr>mediaRecorderRef := Some (?r0\<lparr>chunks := chunks ?r0 @ filter (\<lambda>d. 0 < blob_size d) ds\<rparr>)\<rparr>"
    by (rule deliver_data [OF r0])
  let ?r1 = "\<lparr>recorder_state = Recording, chunks = filter (\<lambda>d. 0 < blob_size d) ds, stopQueued = 0\<rparr>"
  have r1: "mediaRecorderRef ?s1 = Some ?r1"
    unfolding s1 by simp
  let ?s2 = "handleStopRecording ?s1"
  let ?r2 = "\<lparr>recorder_state = Inactive, chunks = filter (\<lambda>d. 0 < blob_size d) ds, stopQueued = Suc 0\<rparr>"
  have r2: "mediaRecorderRef ?s2 = Some ?r2"
    using r1 by (simp add: handleStopRecording_def recorder_stop_def)
  let ?s3 = "recorderEvents (map DataAvailable ds') ?s2"
  have s3: "?s3 = ?s2\<lparr>mediaRecorderRef := Some (?r2\<lparr>chunks := chunks ?r2 @ filter (\<lambda>d. 0 < blob_size d) ds'\<rparr>)\<rparr>"
    by (rule deliver_data [OF r2])
  have r3: "mediaRecorderRef ?s3 =
      Some \<lparr>recorder_state = Inactive, chunks = filter (\<lambda>d. 0 < blob_size d) (ds @ ds'), stopQueued = Suc 0\<rparr>"
    unfolding s3 by simp
  have "recordedBlob (recorderEvent StopEvent ?s3) =
     Some \<lparr>blob_data = concat (map blob_data (filter (\<lambda>d. 0 < blob_size d) (ds @ ds'))),
           blob_type = RECORDING_MIME_TYPE\<rparr>"
    using r3 by (simp add: recorderEvent_def onstop_def stopAllStreams_def new_Blob_def)
  with r1 show ?thesis by simp
qed

text \<open>
  The example: the segments \<open>a\<close>, empty, \<open>a\<close> arrive, the stop is requested, and \<open>b\<close> arrives
  with the stop; the buffer keeps \<open>a\<close> twice and the artifact is \<open>a\<close>, \<open>a\<close>, \<open>b\<close>.
\<close>

theorem chunks_in_delivery_order_witness:
  "mediaRecorderRef
     (recorderEvents (map DataAvailable [segment_a, segment_empty, segment_a])
        (handleStartRecording None initial_session)) =
     Some \<lparr>recorder_state = Recording, chunks = [segment_a, segment_a], stopQueued = 0\<rparr> \<and>
   recordedBlob
     (recorderEvent StopEvent
        (recorderEvents (map DataAvailable [segment_b])
           (handleStopRecording
              (recorderEvents (map DataAvailable [segment_a, segment_empty, segment_a])
                 (handleStartRecording None initial_session))))) =
     Some \<lparr>blob_data = [1, 2, 1, 2, 3], blob_type = RECORDING_MIME_TYPE\<rparr>"
  using chunks_in_delivery_order
          [of "[segment_a, segment_empty, segment_a]" initial_session "[segment_b]"]
  by (simp add: blob_size_def segment_a_def segment_b_def segment_empty_def)

text \<open>
  C8. A stop request on a session that is not live (stopping already, idle again, or never
  started) leaves the session as it is, so an idle session stays idle; a second stop
  request right after the first changes nothing, and after both exactly one more stop task
  is queued than before.
\<close>

theorem stop_when_not_live_noop:
  "(phase s \<noteq> Live \<longrightarrow> handleStopRecording s = s) \<and>
   (phase s = Idle \<longrightarrow> phase (handleStopRecording s) = Idle) \<and>
   handleStopRecording (handleStopRecording s) = handleStopRecording s \<and>
   (phase s = Live \<longrightarrow>
      phase (handleStopRecording s) = Stopping \<and>
      pendingStops (handleStopRecording s) = Suc (pendingStops s) \<and>
      pendingStops (handleStopRecording (handleStopRecording s)) = Suc (pendingStops s))"
proof (cases "mediaRecorderRef s")
  case None
  then show ?thesis
    by (simp add: handleStopRecording_def phase_def)
next
  case (Some r)
  show ?thesis
  proof (cases "recorder_state r = Inactive")
    case True
    with Some show ?thesis
      by (simp add: handleStopRecording_def phase_def)
  next
    case False
    with Some show ?thesis
      by (simp add: handleStopRecording_def phase_def recorder_stop_def pendingStops_def)
  qed
qed

theorem stop_when_not_live_noop_witness:
  "phase initial_session \<noteq> Live \<and> phase initial_session = Idle \<and>
   handleStopRecording initial_session = initial_session \<and>
   phase (handleStopRecording initial_session) = Idle \<and>
   phase (handleStartRecording None initial_session) = Live \<and>
   phase (handleStopRecording (handleStartRecording None initial_session)) = Stopping \<and>
   pendingStops (handleStopRecording (handleStopRecording
     (handleStartRecording None initial_session))) = 1"
proof -
  have i: "phase initial_session \<noteq> Live" and i': "phase initial_session = Idle"
    by (simp_all add: phase_def initial_session_def)
  have l: "phase (handleStartRecording None initial_session) = Live"
    by (simp add: phase_def handleStartRecording_def)
  have p: "pendingStops (handleStartRecording None initial_session) = 0"
    by (simp add: pendingStops_def handleStartRecording_def)
  from stop_when_not_live_noop [of initial_session] i i'
  have a: "handleStopRecording initial_session = initial_session"
    and b: "phase (handleStopRecording initial_session) = Idle"
    by blast+
  from stop_when_not_live_noop [of "handleStartRecording None initial_session"] l
  have c: "phase (handleStopRecording (handleStartRecording None initial_session)) = Stopping"
    and d: "pendingStops (handleStopRecording (handleStopRecording
              (handleStartRecording None initial_session))) =
            Suc (pendingStops (handleStartRecording None initial_session))"
    by blast+
  from d p have "pendingStops (handleStopRecording (handleStopRecording
     (handleStartRecording None initial_session))) = 1" by simp
  with i i' a b l c show ?thesis by blast
qed

section \<open>The compositor\<close>

lemmas canvas_defs =
  save_def beginPath_def ellipse_def clip_def drawImage9_def drawImage5_def fillRect_def
  paint_def set_fillStyle_def set_strokeStyle_def set_lineWidth_def stroke_def strokeRect_def
  restore_def

lemma overlay_painted:
  assumes "containerWidth \<noteq> 0" and "containerHeight \<noteq> 0"
    and "shape config = Circle \<longrightarrow>
           0 \<le> width (size' config) * (screenWidth / containerWidth) \<and>
           0 \<le> height (size' config) * (screenHeight / containerHeight)"
  shows "\<exists>c'. drawCameraOverlay screenWidth screenHeight containerWidth containerHeight camera config c = Inr c'
     \<and> painted c' = painted c @
          Painted (clipRegion c @ (if shape config = Circle
                                   then [overlayPath (screenWidth / containerWidth) (screenHeight / containerHeight) config]
                                   else []))
            (DrawImage CameraVideo (Some (cameraSourceCrop camera config))
               (overlayDestination (screenWidth / containerWidth) (screenHeight / containerHeight) config)) #
          (if 0 < borderWidth config then
             [Painted (clipRegion c @ (if shape config = Circle
                                   then [overlayPath (screenWidth / containerWidth) (screenHeight / containerHeight) config]
                                   else []))
                (let w = (if 0 < borderWidth config * (screenWidth / containerWidth)
                          then borderWidth config * (screenWidth / containerWidth) else lineWidth c)
                 in if shape config = Circle
                    then Stroke (borderColor config) w
                           (overlayPath (screenWidth / containerWidth) (screenHeight / containerHeight) config)
                    else StrokeRect (borderColor config) w
                           (overlayDestination (screenWidth / containerWidth) (screenHeight / containerHeight) config))]
           else [])"
proof (cases "shape config")
  case Circle
  with assms show ?thesis
    by (simp add: drawCameraOverlay_def quotient_def Let_def canvas_defs
        overlayPath_def overlayDestination_def cameraSourceCrop_def)
next
  case Rectangle
  with assms show ?thesis
    by (simp add: drawCameraOverlay_def quotient_def Let_def canvas_defs
        overlayPath_def overlayDestination_def cameraSourceCrop_def)
qed


lemma syncCanvasSize_props:
  "canvas_width (syncCanvasSize w h this) = w"
  "canvas_height (syncCanvasSize w h this) = h"
  "painted (ctx (syncCanvasSize w h this)) = painted (ctx this)"
  "isActive (syncCanvasSize w h this) = isActive this"
  by (simp_all add: syncCanvasSize_def set_canvas_width_def set_canvas_height_def
      default_context_def)

lemma draw_overlay_frame:
  assumes "isActive this" and "2 \<le> readyState (screenVideo inp)"
    and "isVisible (getConfig inp)" and "2 \<le> readyState (cameraVideo inp)"
    and "containerWidth \<noteq> 0" and "containerHeight \<noteq> 0"
    and "shape (getConfig inp) = Circle \<longrightarrow>
           0 \<le> width (size' (getConfig inp)) * (videoWidth (screenVideo inp) / containerWidth) \<and>
           0 \<le> height (size' (getConfig inp)) * (videoHeight (screenVideo inp) / containerHeight)"
  shows "\<exists>this'. draw containerWidth containerHeight inp (this, window) =
            Inr (this', snd (requestAnimationFrame (containerWidth, containerHeight) window)) \<and>
          canvas_width this' = videoWidth (screenVideo inp) \<and>
          canvas_height this' = videoHeight (screenVideo inp) \<and>
          newlyPainted this this' =
            (let sw = videoWidth (screenVideo inp); sh = videoHeight (screenVideo inp);
                 scaleX = sw / containerWidth; scaleY = sh / containerHeight;
                 c0 = ctx (syncCanvasSize sw sh this);
                 config = getConfig inp;
                 region = clipRegion c0 @
                   (if shape config = Circle then [overlayPath scaleX scaleY config] else [])
             in [Painted (clipRegion c0) (FillRect ''#000'' (0, 0, sw, sh)),
                 Painted (clipRegion c0) (DrawImage ScreenVideo None (0, 0, sw, sh)),
                 Painted region
                   (DrawImage CameraVideo (Some (cameraSourceCrop (cameraVideo inp) config))
                      (overlayDestination scaleX scaleY config))] @
                (if 0 < borderWidth config then
                   [Painted region
                      (let w = (if 0 < borderWidth config * scaleX
                                then borderWidth config * scaleX else lineWidth c0)
                       in if shape config = Circle
                          then Stroke (borderColor config) w (overlayPath scaleX scaleY config)
                          else StrokeRect (borderColor config) w
                                 (overlayDestination scaleX scaleY config))]
                 else []))"
proof -
  let ?sw = "videoWidth (screenVideo inp)" and ?sh = "videoHeight (screenVideo inp)"
  let ?this1 = "syncCanvasSize ?sw ?sh this"
  let ?c3 = "drawImage5 ScreenVideo 0 0 ?sw ?sh
               (fillRect 0 0 ?sw ?sh (set_fillStyle ''#000'' (ctx ?this1)))"
  have c3: "painted ?c3 = painted (ctx this) @
      [Painted (clipRegion (ctx ?this1)) (FillRect ''#000'' (0, 0, ?sw, ?sh)),
       Painted (clipRegion (ctx ?this1)) (DrawImage ScreenVideo None (0, 0, ?sw, ?sh))]"
    and r3: "clipRegion ?c3 = clipRegion (ctx ?this1)"
    and l3: "lineWidth ?c3 = lineWidth (ctx ?this1)"
    by (simp_all add: drawImage5_def fillRect_def set_fillStyle_def paint_def
        syncCanvasSize_props)
  from overlay_painted [OF assms(5) assms(6) assms(7), of "cameraVideo inp" ?c3]
  obtain c4 where c4: "drawCameraOverlay ?sw ?sh containerWidth containerHeight
        (cameraVideo inp) (getConfig inp) ?c3 = Inr c4"
    and p4: "painted c4 = painted ?c3 @
          Painted (clipRegion ?c3 @ (if shape (getConfig inp) = Circle
                                   then [overlayPath (?sw / containerWidth) (?sh / containerHeight) (getConfig inp)]
                                   else []))
            (DrawImage CameraVideo (Some (cameraSourceCrop (cameraVideo inp) (getConfig inp)))
               (overlayDestination (?sw / containerWidth) (?sh / containerHeight) (getConfig inp))) #
          (if 0 < borderWidth (getConfig inp) then
             [Painted (clipRegion ?c3 @ (if shape (getConfig inp) = Circle
                                   then [overlayPath (?sw / containerWidth) (?sh / containerHeight) (getConfig inp)]
                                   else []))
                (let w = (if 0 < borderWidth (getConfig inp) * (?sw / containerWidth)
                          then borderWidth (getConfig inp) * (?sw / containerWidth) else lineWidth ?c3)
                 in if shape (getConfig inp) = Circle
                    then Stroke (borderColor (getConfig inp)) w
                           (overlayPath (?sw / containerWidth) (?sh / containerHeight) (getConfig inp))
                    else StrokeRect (borderColor (getConfig inp)) w
                           (overlayDestination (?sw / containerWidth) (?sh / containerHeight) (getConfig inp)))]
           else [])"
    by blast
  let ?this' = "?this1\<lparr>ctx := c4, animationFrameId := Some (Suc (lastHandle window))\<rparr>"
  have d: "draw containerWidth containerHeight inp (this, window) =
      Inr (?this', snd (requestAnimationFrame (containerWidth, containerHeight) window))"
    using assms(1-4) c4
    by (simp add: draw_def Let_def requestAnimationFrame_def not_less)
  have n: "newlyPainted this ?this' = drop (length (painted (ctx this))) (painted c4)"
    by (simp add: newlyPainted_def)
  show ?thesis
    apply (rule exI [of _ ?this'])
    apply (simp only: d n p4 c3 r3 l3 Let_def)
    apply (simp add: syncCanvasSize_props)
    done
qed


lemma draw_overlay_views:
  assumes "isActive this" and "2 \<le> readyState (screenVideo inp)"
    and "isVisible (getConfig inp)" and "2 \<le> readyState (cameraVideo inp)"
    and "containerWidth \<noteq> 0" and "containerHeight \<noteq> 0"
    and "shape (getConfig inp) = Circle \<longrightarrow>
           0 \<le> width (size' (getConfig inp)) * (videoWidth (screenVideo inp) / containerWidth) \<and>
           0 \<le> height (size' (getConfig inp)) * (videoHeight (screenVideo inp) / containerHeight)"
  shows "\<exists>this' window'.
          draw containerWidth containerHeight inp (this, window) = Inr (this', window') \<and>
          canvas_width this' = videoWidth (screenVideo inp) \<and>
          canvas_height this' = videoHeight (screenVideo inp) \<and>
          List.map_filter cameraCrop (newlyPainted this this') =
            [cameraSourceCrop (cameraVideo inp) (getConfig inp)] \<and>
          List.map_filter cameraDestination (newlyPainted this this') =
            [overlayDestination (videoWidth (screenVideo inp) / containerWidth)
               (videoHeight (screenVideo inp) / containerHeight) (getConfig inp)] \<and>
          List.map_filter strokeOf (newlyPainted this this') =
            (if 0 < borderWidth (getConfig inp) then
               [(borderColor (getConfig inp),
                 (if 0 < borderWidth (getConfig inp) * (videoWidth (screenVideo inp) / containerWidth)
                  then borderWidth (getConfig inp) * (videoWidth (screenVideo inp) / containerWidth)
                  else lineWidth (ctx (syncCanvasSize (videoWidth (screenVideo inp))
                                         (videoHeight (screenVideo inp)) this))),
                 (if shape (getConfig inp) = Circle
                  then PathOutline (overlayPath (videoWidth (screenVideo inp) / containerWidth)
                         (videoHeight (screenVideo inp) / containerHeight) (getConfig inp))
                  else RectOutline (overlayDestination (videoWidth (screenVideo inp) / containerWidth)
                         (videoHeight (screenVideo inp) / containerHeight) (getConfig inp))))]
             else [])"
proof -
  from draw_overlay_frame [OF assms, of window]
  obtain this' where d: "draw containerWidth containerHeight inp (this, window) =
            Inr (this', snd (requestAnimationFrame (containerWidth, containerHeight) window))"
    and w: "canvas_width this' = videoWidth (screenVideo inp)"
    and h: "canvas_height this' = videoHeight (screenVideo inp)"
    and n: "newlyPainted this this' =
            (let sw = videoWidth (screenVideo inp); sh = videoHeight (screenVideo inp);
                 scaleX = sw / containerWidth; scaleY = sh / containerHeight;
                 c0 = ctx (syncCanvasSize sw sh this);
                 config = getConfig inp;
                 region = clipRegion c0 @
                   (if shape config = Circle then [overlayPath scaleX scaleY config] else [])
             in [Painted (clipRegion c0) (FillRect ''#000'' (0, 0, sw, sh)),
                 Painted (clipRegion c0) (DrawImage ScreenVideo None (0, 0, sw, sh)),
                 Painted region
                   (DrawImage CameraVideo (Some (cameraSourceCrop (cameraVideo inp) config))
                      (overlayDestination scaleX scaleY config))] @
                (if 0 < borderWidth config then
                   [Painted region
                      (let w = (if 0 < borderWidth config * scaleX
                                then borderWidth config * scaleX else lineWidth c0)
                       in if shape config = Circle
                          then Stroke (borderColor config) w (overlayPath scaleX scaleY config)
                          else StrokeRect (borderColor config) w
                                 (overlayDestination scaleX scaleY config))]
                 else []))"
    by blast
  have 1: "List.map_filter cameraCrop (newlyPainted this this') =
            [cameraSourceCrop (cameraVideo inp) (getConfig inp)]"
    unfolding n by (simp add: Let_def List.map_filter_simps)
  have 2: "List.map_filter cameraDestination (newlyPainted this this') =
            [overlayDestination (videoWidth (screenVideo inp) / containerWidth)
               (videoHeight (screenVideo inp) / containerHeight) (getConfig inp)]"
    unfolding n by (simp add: Let_def List.map_filter_simps)
  have 3: "List.map_filter strokeOf (newlyPainted this this') =
            (if 0 < borderWidth (getConfig inp) then
               [(borderColor (getConfig inp),
                 (if 0 < borderWidth (getConfig inp) * (videoWidth (screenVideo inp) / containerWidth)
                  then borderWidth (getConfig inp) * (videoWidth (screenVideo inp) / containerWidth)
                  else lineWidth (ctx (syncCanvasSize (videoWidth (screenVideo inp))
                                         (videoHeight (screenVideo inp)) this))),
                 (if shape (getConfig inp) = Circle
                  then PathOutline (overlayPath (videoWidth (screenVideo inp) / containerWidth)
                         (videoHeight (screenVideo inp) / containerHeight) (getConfig inp))
                  else RectOutline (overlayDestination (videoWidth (screenVideo inp) / containerWidth)
                         (videoHeight (screenVideo inp) / containerHeight) (getConfig inp))))]
             else [])"
    unfolding n by (simp add: Let_def List.map_filter_simps)
  from d w h 1 2 3 show ?thesis by blast
qed

text \<open>
  C3. On every frame in which the renderer draws the camera overlay (the compositor is
  active, both videos have a frame, the overlay is visible, the scale is a finite number
  and the ellipse of a circular overlay has no negative radius), the frame contains exactly
  one drawing of the camera, and with \<open>zoom = max 1 zoomLevel\<close> its source crop has the
  width \<open>nativeW / zoom\<close> and the height \<open>nativeH / zoom\<close> and the origin
  \<open>((nativeW - cropW) / 2, (nativeH - cropH) / 2)\<close>. For zoom level 2 and a camera of
  1280 by 720 the crop is 640 by 360 at (320, 180).
\<close>

theorem zoom_source_crop:
  assumes "isActive this" and "2 \<le> readyState (screenVideo inp)"
    and "isVisible (getConfig inp)" and "2 \<le> readyState (cameraVideo inp)"
    and "containerWidth \<noteq> 0" and "containerHeight \<noteq> 0"
    and "shape (getConfig inp) = Circle \<longrightarrow>
           0 \<le> width (size' (getConfig inp)) * (videoWidth (screenVideo inp) / containerWidth) \<and>
           0 \<le> height (size' (getConfig inp)) * (videoHeight (screenVideo inp) / containerHeight)"
  shows "\<exists>this' window'.
           draw containerWidth containerHeight inp (this, window) = Inr (this', window') \<and>
           List.map_filter cameraCrop (newlyPainted this this') =
             [(let zoom = max 1 (zoomLevel (getConfig inp));
                   nativeW = videoWidth (cameraVideo inp);
                   nativeH = videoHeight (cameraVideo inp);
                   cropW = nativeW / zoom;
                   cropH = nativeH / zoom
               in ((nativeW - cropW) / 2, (nativeH - cropH) / 2, cropW, cropH))] \<and>
           (zoomLevel (getConfig inp) = 2 \<and> videoWidth (cameraVideo inp) = 1280 \<and>
            videoHeight (cameraVideo inp) = 720 \<longrightarrow>
              List.map_filter cameraCrop (newlyPainted this this') = [(320, 180, 640, 360)])"
proof -
  from draw_overlay_views [OF assms, of window]
  obtain this' window' where d: "draw containerWidth containerHeight inp (this, window) = Inr (this', window')"
    and n: "List.map_filter cameraCrop (newlyPainted this this') =
              [cameraSourceCrop (cameraVideo inp) (getConfig inp)]"
    by blast
  have e: "zoomLevel (getConfig inp) = 2 \<and> videoWidth (cameraVideo inp) = 1280 \<and>
            videoHeight (cameraVideo inp) = 720 \<longrightarrow>
        cameraSourceCrop (cameraVideo inp) (getConfig inp) = (320, 180, 640, 360)"
    by (simp add: cameraSourceCrop_def)
  have f: "cameraSourceCrop (cameraVideo inp) (getConfig inp) =
      (let zoom = max 1 (zoomLevel (getConfig inp));
                   nativeW = videoWidth (cameraVideo inp);
                   nativeH = videoHeight (cameraVideo inp);
                   cropW = nativeW / zoom;
                   cropH = nativeH / zoom
               in ((nativeW - cropW) / 2, (nativeH - cropH) / 2, cropW, cropH))"
    by (simp add: cameraSourceCrop_def Let_def)
  from d n e f show ?thesis by (metis (no_types, lifting))
qed

lemma example_frame_hyps:
  "isActive example_compositor" "2 \<le> readyState (screenVideo example_input)"
  "isVisible (getConfig example_input)" "2 \<le> readyState (cameraVideo example_input)"
  "(960::real) \<noteq> 0" "(540::real) \<noteq> 0"
  "shape (getConfig example_input) = Circle \<longrightarrow>
           0 \<le> width (size' (getConfig example_input)) * (videoWidth (screenVideo example_input) / 960) \<and>
           0 \<le> height (size' (getConfig example_input)) * (videoHeight (screenVideo example_input) / 540)"
  by (simp_all add: example_compositor_def fresh_compositor_def example_input_def
      INITIAL_OVERLAY_CONFIG_def)

text \<open>The first frame of the example: zoom level 2 on a 1280 by 720 camera.\<close>

theorem zoom_source_crop_witness:
  "isActive example_compositor \<and> 2 \<le> readyState (screenVideo example_input) \<and>
   isVisible (getConfig example_input) \<and> 2 \<le> readyState (cameraVideo example_input) \<and>
   zoomLevel (getConfig example_input) = 2 \<and>
   videoWidth (cameraVideo example_input) = 1280 \<and>
   videoHeight (cameraVideo example_input) = 720 \<and>
   List.map_filter cameraCrop
     (newlyPainted example_compositor
        (fst (projr (draw 960 540 example_input (example_compositor, example_window))))) =
     [(320, 180, 640, 360)]"
proof -
  have z: "zoomLevel (getConfig example_input) = 2 \<and>
      videoWidth (cameraVideo example_input) = 1280 \<and>
      videoHeight (cameraVideo example_input) = 720"
    by (simp add: example_input_def)
  from zoom_source_crop [OF example_frame_hyps, of example_window]
  obtain this' window' where
    d: "draw 960 540 example_input (example_compositor, example_window) = Inr (this', window')"
    and e: "zoomLevel (getConfig example_input) = 2 \<and>
            videoWidth (cameraVideo example_input) = 1280 \<and>
            videoHeight (cameraVideo example_input) = 720 \<longrightarrow>
            List.map_filter cameraCrop (newlyPainted example_compositor this') =
              [(320, 180, 640, 360)]"
    by blast
  from e z have "List.map_filter cameraCrop (newlyPainted example_compositor this') =
      [(320, 180, 640, 360)]"
    by blast
  then have "List.map_filter cameraCrop
     (newlyPainted example_compositor
        (fst (projr (draw 960 540 example_input (example_compositor, example_window))))) =
     [(320, 180, 640, 360)]"
    by (simp add: d)
  with z example_frame_hyps(1-4) show ?thesis by blast
qed


text \<open>
  C5. On every frame in which the renderer draws the camera overlay, the surface has the
  resolution of the screen video, and the camera is drawn into the rectangle
  \<open>(camX, camY, camW, camH)\<close> with \<open>camX = position.x * scaleX\<close>, \<open>camY = position.y * scaleY\<close>,
  \<open>camW = width * scaleX\<close> and \<open>camH = height * scaleY\<close>, where
  \<open>scaleX = surfaceWidth / containerWidth\<close> and \<open>scaleY = surfaceHeight / containerHeight\<close>.
\<close>

theorem overlay_destination_rectangle:
  assumes "isActive this" and "2 \<le> readyState (screenVideo inp)"
    and "isVisible (getConfig inp)" and "2 \<le> readyState (cameraVideo inp)"
    and "containerWidth \<noteq> 0" and "containerHeight \<noteq> 0"
    and "shape (getConfig inp) = Circle \<longrightarrow>
           0 \<le> width (size' (getConfig inp)) * (videoWidth (screenVideo inp) / containerWidth) \<and>
           0 \<le> height (size' (getConfig inp)) * (videoHeight (screenVideo inp) / containerHeight)"
  shows "\<exists>this' window'.
           draw containerWidth containerHeight inp (this, window) = Inr (this', window') \<and>
           canvas_width this' = videoWidth (screenVideo inp) \<and>
           canvas_height this' = videoHeight (screenVideo inp) \<and>
           List.map_filter cameraDestination (newlyPainted this this') =
             [(let scaleX = canvas_width this' / containerWidth;
                   scaleY = canvas_height this' / containerHeight;
                   camX = pos_x (position (getConfig inp)) * scaleX;
                   camY = pos_y (position (getConfig inp)) * scaleY;
                   camW = width (size' (getConfig inp)) * scaleX;
                   camH = height (size' (getConfig inp)) * scaleY
               in (camX, camY, camW, camH))]"
proof -
  from draw_overlay_views [OF assms, of window]
  obtain this' window' where d: "draw containerWidth containerHeight inp (this, window) = Inr (this', window')"
    and w: "canvas_width this' = videoWidth (screenVideo inp)"
    and h: "canvas_height this' = videoHeight (screenVideo inp)"
    and n: "List.map_filter cameraDestination (newlyPainted this this') =
            [overlayDestination (videoWidth (screenVideo inp) / containerWidth)
               (videoHeight (screenVideo inp) / containerHeight) (getConfig inp)]"
    by blast
  have "List.map_filter cameraDestination (newlyPainted this this') =
             [(let scaleX = canvas_width this' / containerWidth;
                   scaleY = canvas_height this' / containerHeight;
                   camX = pos_x (position (getConfig inp)) * scaleX;
                   camY = pos_y (position (getConfig inp)) * scaleY;
                   camW = width (size' (getConfig inp)) * scaleX;
                   camH = height (size' (getConfig inp)) * scaleY
               in (camX, camY, camW, camH))]"
    unfolding n w h by (simp add: overlayDestination_def Let_def)
  with d w h show ?thesis by blast
qed

text \<open>
  The example: a 1920 by 1080 surface over a 960 by 540 container doubles the overlay at
  (50, 50) of size 200 by 200.
\<close>

theorem overlay_destination_rectangle_witness:
  "isActive example_compositor \<and> 2 \<le> readyState (screenVideo example_input) \<and>
   isVisible (getConfig example_input) \<and> 2 \<le> readyState (cameraVideo example_input) \<and>
   List.map_filter cameraDestination
     (newlyPainted example_compositor
        (fst (projr (draw 960 540 example_input (example_compositor, example_window))))) =
     [(100, 100, 400, 400)]"
proof -
  from overlay_destination_rectangle [OF example_frame_hyps, of example_window]
  obtain this' window' where
    d: "draw 960 540 example_input (example_compositor, example_window) = Inr (this', window')"
    and w: "canvas_width this' = videoWidth (screenVideo example_input)"
    and h: "canvas_height this' = videoHeight (screenVideo example_input)"
    and n: "List.map_filter cameraDestination (newlyPainted example_compositor this') =
             [(let scaleX = canvas_width this' / 960;
                   scaleY = canvas_height this' / 540;
                   camX = pos_x (position (getConfig example_input)) * scaleX;
                   camY = pos_y (position (getConfig example_input)) * scaleY;
                   camW = width (size' (getConfig example_input)) * scaleX;
                   camH = height (size' (getConfig example_input)) * scaleY
               in (camX, camY, camW, camH))]"
    by blast
  have "List.map_filter cameraDestination (newlyPainted example_compositor this') =
      [(100, 100, 400, 400)]"
    unfolding n w h by (simp add: example_input_def INITIAL_OVERLAY_CONFIG_def)
  then have "List.map_filter cameraDestination
     (newlyPainted example_compositor
        (fst (projr (draw 960 540 example_input (example_compositor, example_window))))) =
     [(100, 100, 400, 400)]"
    by (simp add: d)
  with example_frame_hyps(1-4) show ?thesis by blast
qed

lemma border_stroke_general:
  assumes "isActive this" and "2 \<le> readyState (screenVideo inp)"
    and "isVisible (getConfig inp)" and "2 \<le> readyState (cameraVideo inp)"
    and "containerWidth \<noteq> 0" and "containerHeight \<noteq> 0"
    and "shape (getConfig inp) = Circle \<longrightarrow>
           0 \<le> width (size' (getConfig inp)) * (videoWidth (screenVideo inp) / containerWidth) \<and>
           0 \<le> height (size' (getConfig inp)) * (videoHeight (screenVideo inp) / containerHeight)"
    and "0 < videoWidth (screenVideo inp) / containerWidth"
  shows "\<exists>this' window'.
           draw containerWidth containerHeight inp (this, window) = Inr (this', window') \<and>
           List.map_filter strokeOf (newlyPainted this this') =
             (let scaleX = videoWidth (screenVideo inp) / containerWidth;
                  scaleY = videoHeight (screenVideo inp) / containerHeight;
                  camX = pos_x (position (getConfig inp)) * scaleX;
                  camY = pos_y (position (getConfig inp)) * scaleY;
                  camW = width (size' (getConfig inp)) * scaleX;
                  camH = height (size' (getConfig inp)) * scaleY
              in if 0 < borderWidth (getConfig inp) then
                   [(borderColor (getConfig inp), borderWidth (getConfig inp) * scaleX,
                     (if shape (getConfig inp) = Circle
                      then PathOutline [Ellipse (camX + camW / 2) (camY + camH / 2)
                                          (camW / 2) (camH / 2) 0 0 (2 * Math_PI)]
                      else RectOutline (camX, camY, camW, camH)))]
                 else [])"
proof -
  from draw_overlay_views [OF assms(1-7), of window]
  obtain this' window' where d: "draw containerWidth containerHeight inp (this, window) = Inr (this', window')"
    and n: "List.map_filter strokeOf (newlyPainted this this') =
            (if 0 < borderWidth (getConfig inp) then
               [(borderColor (getConfig inp),
                 (if 0 < borderWidth (getConfig inp) * (videoWidth (screenVideo inp) / containerWidth)
                  then borderWidth (getConfig inp) * (videoWidth (screenVideo inp) / containerWidth)
                  else lineWidth (ctx (syncCanvasSize (videoWidth (screenVideo inp))
                                         (videoHeight (screenVideo inp)) this))),
                 (if shape (getConfig inp) = Circle
                  then PathOutline (overlayPath (videoWidth (screenVideo inp) / containerWidth)
                         (videoHeight (screenVideo inp) / containerHeight) (getConfig inp))
                  else RectOutline (overlayDestination (videoWidth (screenVideo inp) / containerWidth)
                         (videoHeight (screenVideo inp) / containerHeight) (getConfig inp))))]
             else [])"
    by blast
  have pos: "0 < borderWidth (getConfig inp) \<Longrightarrow>
      0 < borderWidth (getConfig inp) * (videoWidth (screenVideo inp) / containerWidth)"
    by (rule mult_pos_pos [OF _ assms(8)])
  have "List.map_filter strokeOf (newlyPainted this this') =
             (let scaleX = videoWidth (screenVideo inp) / containerWidth;
                  scaleY = videoHeight (screenVideo inp) / containerHeight;
                  camX = pos_x (position (getConfig inp)) * scaleX;
                  camY = pos_y (position (getConfig inp)) * scaleY;
                  camW = width (size' (getConfig inp)) * scaleX;
                  camH = height (size' (getConfig inp)) * scaleY
              in if 0 < borderWidth (getConfig inp) then
                   [(borderColor (getConfig inp), borderWidth (getConfig inp) * scaleX,
                     (if shape (getConfig inp) = Circle
                      then PathOutline [Ellipse (camX + camW / 2) (camY + camH / 2)
                                          (camW / 2) (camH / 2) 0 0 (2 * Math_PI)]
                      else RectOutline (camX, camY, camW, camH)))]
                 else [])"
    unfolding n using pos by (simp add: overlayPath_def overlayDestination_def Let_def)
  with d show ?thesis by blast
qed


text \<open>
  C6. On every frame in which the renderer draws the camera overlay onto a surface with a
  positive horizontal scale: if \<open>borderWidth > 0\<close> the frame contains exactly one stroke, of
  the ellipse inscribed in the destination rectangle for a circle and of the destination
  rectangle for a rectangle, in \<open>borderColor\<close> and with the line width
  \<open>borderWidth * scaleX\<close>; otherwise it contains no stroke. So the frame for the
  configuration with \<open>borderWidth\<close> set to 0 has no stroke, and the frame for the
  configuration with \<open>borderWidth\<close> set to 0 and then back to 4 has the stroke in the
  configured colour with the line width \<open>4 * scaleX\<close>.
\<close>

theorem border_stroke:
  assumes "isActive this" and "2 \<le> readyState (screenVideo inp)"
    and "isVisible (getConfig inp)" and "2 \<le> readyState (cameraVideo inp)"
    and "containerWidth \<noteq> 0" and "containerHeight \<noteq> 0"
    and "shape (getConfig inp) = Circle \<longrightarrow>
           0 \<le> width (size' (getConfig inp)) * (videoWidth (screenVideo inp) / containerWidth) \<and>
           0 \<le> height (size' (getConfig inp)) * (videoHeight (screenVideo inp) / containerHeight)"
    and "0 < videoWidth (screenVideo inp) / containerWidth"
  shows "(\<exists>this' window'.
           draw containerWidth containerHeight inp (this, window) = Inr (this', window') \<and>
           List.map_filter strokeOf (newlyPainted this this') =
             (let scaleX = videoWidth (screenVideo inp) / containerWidth;
                  scaleY = videoHeight (screenVideo inp) / containerHeight;
                  camX = pos_x (position (getConfig inp)) * scaleX;
                  camY = pos_y (position (getConfig inp)) * scaleY;
                  camW = width (size' (getConfig inp)) * scaleX;
                  camH = height (size' (getConfig inp)) * scaleY
              in if 0 < borderWidth (getConfig inp) then
                   [(borderColor (getConfig inp), borderWidth (getConfig inp) * scaleX,
                     (if shape (getConfig inp) = Circle
                      then PathOutline [Ellipse (camX + camW / 2) (camY + camH / 2)
                                          (camW / 2) (camH / 2) 0 0 (2 * Math_PI)]
                      else RectOutline (camX, camY, camW, camH)))]
                 else [])) \<and>
         (\<exists>this' window'.
           draw containerWidth containerHeight
             (inp\<lparr>getConfig := (getConfig inp)\<lparr>borderWidth := 0\<rparr>\<rparr>) (this, window) =
             Inr (this', window') \<and>
           List.map_filter strokeOf (newlyPainted this this') = []) \<and>
         (\<exists>this' window'.
           draw containerWidth containerHeight
             (inp\<lparr>getConfig := (getConfig inp)\<lparr>borderWidth := 0\<rparr>\<lparr>borderWidth := 4\<rparr>\<rparr>)
             (this, window) = Inr (this', window') \<and>
           List.map_filter strokeOf (newlyPainted this this') =
             (let scaleX = videoWidth (screenVideo inp) / containerWidth;
                  scaleY = videoHeight (screenVideo inp) / containerHeight;
                  camX = pos_x (position (getConfig inp)) * scaleX;
                  camY = pos_y (position (getConfig inp)) * scaleY;
                  camW = width (size' (getConfig inp)) * scaleX;
                  camH = height (size' (getConfig inp)) * scaleY
              in [(borderColor (getConfig inp), 4 * scaleX,
                   (if shape (getConfig inp) = Circle
                    then PathOutline [Ellipse (camX + camW / 2) (camY + camH / 2)
                                        (camW / 2) (camH / 2) 0 0 (2 * Math_PI)]
                    else RectOutline (camX, camY, camW, camH)))]))"
proof -
  let ?inp0 = "inp\<lparr>getConfig := (getConfig inp)\<lparr>borderWidth := 0\<rparr>\<rparr>"
  let ?inp4 = "inp\<lparr>getConfig := (getConfig inp)\<lparr>borderWidth := 0\<rparr>\<lparr>borderWidth := 4\<rparr>\<rparr>"
  have h0: "isActive this" "2 \<le> readyState (screenVideo ?inp0)"
    "isVisible (getConfig ?inp0)" "2 \<le> readyState (cameraVideo ?inp0)"
    "containerWidth \<noteq> 0" "containerHeight \<noteq> 0"
    "shape (getConfig ?inp0) = Circle \<longrightarrow>
           0 \<le> width (size' (getConfig ?inp0)) * (videoWidth (screenVideo ?inp0) / containerWidth) \<and>
           0 \<le> height (size' (getConfig ?inp0)) * (videoHeight (screenVideo ?inp0) / containerHeight)"
    "0 < videoWidth (screenVideo ?inp0) / containerWidth"
    using assms by simp_all
  have h4: "isActive this" "2 \<le> readyState (screenVideo ?inp4)"
    "isVisible (getConfig ?inp4)" "2 \<le> readyState (cameraVideo ?inp4)"
    "containerWidth \<noteq> 0" "containerHeight \<noteq> 0"
    "shape (getConfig ?inp4) = Circle \<longrightarrow>
           0 \<le> width (size' (getConfig ?inp4)) * (videoWidth (screenVideo ?inp4) / containerWidth) \<and>
           0 \<le> height (size' (getConfig ?inp4)) * (videoHeight (screenVideo ?inp4) / containerHeight)"
    "0 < videoWidth (screenVideo ?inp4) / containerWidth"
    using assms by simp_all
  note a = border_stroke_general [OF assms, of window]
  from border_stroke_general [OF h0, of window]
  have b: "\<exists>this' window'.
           draw containerWidth containerHeight ?inp0 (this, window) = Inr (this', window') \<and>
           List.map_filter strokeOf (newlyPainted this this') = []"
    by (simp add: Let_def)
  from border_stroke_general [OF h4, of window]
  have c: "\<exists>this' window'.
           draw containerWidth containerHeight ?inp4 (this, window) = Inr (this', window') \<and>
           List.map_filter strokeOf (newlyPainted this this') =
             (let scaleX = videoWidth (screenVideo inp) / containerWidth;
                  scaleY = videoHeight (screenVideo inp) / containerHeight;
                  camX = pos_x (position (getConfig inp)) * scaleX;
                  camY = pos_y (position (getConfig inp)) * scaleY;
                  camW = width (size' (getConfig inp)) * scaleX;
                  camH = height (size' (getConfig inp)) * scaleY
              in [(borderColor (getConfig inp), 4 * scaleX,
                   (if shape (getConfig inp) = Circle
                    then PathOutline [Ellipse (camX + camW / 2) (camY + camH / 2)
                                        (camW / 2) (camH / 2) 0 0 (2 * Math_PI)]
                    else RectOutline (camX, camY, camW, camH)))])"
    by (simp add: Let_def)
  from a b c show ?thesis by blast
qed

lemma example_scale:
  "0 < videoWidth (screenVideo example_input) / (960::real)"
  by (simp add: example_input_def)

text \<open>
  The example: the initial border of width 4 is stroked with the line width 8 along the
  ellipse; without the border nothing is stroked; with the border back the stroke is back.
\<close>

theorem border_stroke_witness:
  "isActive example_compositor \<and> 2 \<le> readyState (screenVideo example_input) \<and>
   isVisible (getConfig example_input) \<and> 2 \<le> readyState (cameraVideo example_input) \<and>
   0 < videoWidth (screenVideo example_input) / (960::real) \<and>
   List.map_filter strokeOf
     (newlyPainted example_compositor
        (fst (projr (draw 960 540 example_input (example_compositor, example_window))))) =
     [(''#3b82f6'', 8, PathOutline [Ellipse 300 300 200 200 0 0 (2 * Math_PI)])] \<and>
   List.map_filter strokeOf
     (newlyPainted example_compositor
        (fst (projr (draw 960 540
           (example_input\<lparr>getConfig := (getConfig example_input)\<lparr>borderWidth := 0\<rparr>\<rparr>)
           (example_compositor, example_window))))) = [] \<and>
   List.map_filter strokeOf
     (newlyPainted example_compositor
        (fst (projr (draw 960 540
           (example_input\<lparr>getConfig :=
              (getConfig example_input)\<lparr>borderWidth := 0\<rparr>\<lparr>borderWidth := 4\<rparr>\<rparr>)
           (example_compositor, example_window))))) =
     [(''#3b82f6'', 4 * 2, PathOutline [Ellipse 300 300 200 200 0 0 (2 * Math_PI)])]"
proof -
  let ?inp0 = "example_input\<lparr>getConfig := (getConfig example_input)\<lparr>borderWidth := 0\<rparr>\<rparr>"
  let ?inp4 = "example_input\<lparr>getConfig :=
              (getConfig example_input)\<lparr>borderWidth := 0\<rparr>\<lparr>borderWidth := 4\<rparr>\<rparr>"
  from border_stroke [OF example_frame_hyps example_scale, of example_window]
  obtain a wa b wb c wc where
    da: "draw 960 540 example_input (example_compositor, example_window) = Inr (a, wa)"
    and na: "List.map_filter strokeOf (newlyPainted example_compositor a) =
             (let scaleX = videoWidth (screenVideo example_input) / 960;
                  scaleY = videoHeight (screenVideo example_input) / 540;
                  camX = pos_x (position (getConfig example_input)) * scaleX;
                  camY = pos_y (position (getConfig example_input)) * scaleY;
                  camW = width (size' (getConfig example_input)) * scaleX;
                  camH = height (size' (getConfig example_input)) * scaleY
              in if 0 < borderWidth (getConfig example_input) then
                   [(borderColor (getConfig example_input),
                     borderWidth (getConfig example_input) * scaleX,
                     (if shape (getConfig example_input) = Circle
                      then PathOutline [Ellipse (camX + camW / 2) (camY + camH / 2)
                                          (camW / 2) (camH / 2) 0 0 (2 * Math_PI)]
                      else RectOutline (camX, camY, camW, camH)))]
                 else [])"
    and db: "draw 960 540 ?inp0 (example_compositor, example_window) = Inr (b, wb)"
    and nb: "List.map_filter strokeOf (newlyPainted example_compositor b) = []"
    and dc: "draw 960 540 ?inp4 (example_compositor, example_window) = Inr (c, wc)"
    and nc: "List.map_filter strokeOf (newlyPainted example_compositor c) =
             (let scaleX = videoWidth (screenVideo example_input) / 960;
                  scaleY = videoHeight (screenVideo example_input) / 540;
                  camX = pos_x (position (getConfig example_input)) * scaleX;
                  camY = pos_y (position (getConfig example_input)) * scaleY;
                  camW = width (size' (getConfig example_input)) * scaleX;
                  camH = height (size' (getConfig example_input)) * scaleY
              in [(borderColor (getConfig example_input), 4 * scaleX,
                   (if shape (getConfig example_input) = Circle
                    then PathOutline [Ellipse (camX + camW / 2) (camY + camH / 2)
                                        (camW / 2) (camH / 2) 0 0 (2 * Math_PI)]
                    else RectOutline (camX, camY, camW, camH)))])"
    by blast
  have 1: "List.map_filter strokeOf
     (newlyPainted example_compositor
        (fst (projr (draw 960 540 example_input (example_compositor, example_window))))) =
     [(''#3b82f6'', 8, PathOutline [Ellipse 300 300 200 200 0 0 (2 * Math_PI)])]"
    unfolding da using na
    by (simp add: example_input_def INITIAL_OVERLAY_CONFIG_def Let_def)
  have 2: "List.map_filter strokeOf
     (newlyPainted example_compositor
        (fst (projr (draw 960 540 ?inp0 (example_compositor, example_window))))) = []"
    unfolding db using nb by simp
  have 3: "List.map_filter strokeOf
     (newlyPainted example_compositor
        (fst (projr (draw 960 540 ?inp4 (example_compositor, example_window))))) =
     [(''#3b82f6'', 4 * 2, PathOutline [Ellipse 300 300 200 200 0 0 (2 * Math_PI)])]"
    unfolding dc using nc
    by (simp add: example_input_def INITIAL_OVERLAY_CONFIG_def Let_def)
  from example_frame_hyps(1-4) example_scale 1 2 3 show ?thesis by blast
qed

lemma draw_inactive:
  "\<not> isActive (fst cw) \<Longrightarrow> draw a b inp cw = Inr cw"
  by (simp add: draw_def Let_def)

lemma runCallbacks_inactive:
  "\<not> isActive (fst cw) \<Longrightarrow> runCallbacks cbs inp cw = Inr cw"
  by (induction cbs) (simp_all add: draw_inactive)

lemma stop_fst:
  "fst (stop cw) = (fst cw)\<lparr>isActive := False\<rparr>"
  by (simp add: stop_def Let_def split: option.splits)

lemma start_schedules:
  assumes "start a b inp cw = Inr cw1"
  shows "animationFrameId (fst cw1) = Some (Suc (lastHandle (snd cw))) \<and>
         callbacks (snd cw1) = callbacks (snd cw) @ [(Suc (lastHandle (snd cw)), a, b)] \<and>
         isActive (fst cw1)"
  using assms
  by (auto simp add: start_def draw_def Let_def requestAnimationFrame_def
      syncCanvasSize_props split: if_splits sum.splits)

text \<open>
  C9, as the code has it. \<open>stop\<close> clears the active flag and leaves the context as it is.
  \<open>draw\<close> tests the flag first, so whatever callbacks are still pending after \<open>stop\<close>, the
  next display refresh runs them without painting and without a new request, and no
  callback is pending after it. \<open>stop\<close> also cancels the request that \<open>animationFrameId\<close>
  holds: after \<open>start\<close> on a window with no pending callback, exactly the request of the
  first \<open>draw\<close> is pending, and after \<open>stop\<close> none is. Cancellation takes effect when
  \<open>stop\<close> returns.
\<close>

theorem stop_cancels_at_once:
  "\<not> isActive (fst (stop cw)) \<and>
   ctx (fst (stop cw)) = ctx (fst cw) \<and>
   draw a b inp (stop cw) = Inr (stop cw) \<and>
   tick inp (stop cw) = Inr (fst (stop cw), (snd (stop cw))\<lparr>callbacks := []\<rparr>) \<and>
   (callbacks (snd cw) = [] \<and> start a b inp cw = Inr cw1 \<longrightarrow>
      callbacks (snd cw1) = [(Suc (lastHandle (snd cw)), a, b)] \<and>
      callbacks (snd (stop cw1)) = [])"
proof -
  have 1: "\<not> isActive (fst (stop cw))" by (simp add: stop_fst)
  have 2: "ctx (fst (stop cw)) = ctx (fst cw)" by (simp add: stop_fst)
  have 3: "draw a b inp (stop cw) = Inr (stop cw)" by (rule draw_inactive [OF 1])
  have 4: "tick inp (stop cw) = Inr (fst (stop cw), (snd (stop cw))\<lparr>callbacks := []\<rparr>)"
    unfolding tick_def by (rule runCallbacks_inactive) (simp add: 1)
  have 5: "callbacks (snd cw) = [] \<and> start a b inp cw = Inr cw1 \<longrightarrow>
      callbacks (snd cw1) = [(Suc (lastHandle (snd cw)), a, b)] \<and>
      callbacks (snd (stop cw1)) = []"
  proof
    assume h: "callbacks (snd cw) = [] \<and> start a b inp cw = Inr cw1"
    from start_schedules [of a b inp cw cw1] h
    have i: "animationFrameId (fst cw1) = Some (Suc (lastHandle (snd cw)))"
      and c: "callbacks (snd cw1) = [(Suc (lastHandle (snd cw)), a, b)]"
      by simp_all
    have "callbacks (snd (stop cw1)) = []"
      by (simp add: stop_def Let_def i c cancelAnimationFrame_def)
    with c show "callbacks (snd cw1) = [(Suc (lastHandle (snd cw)), a, b)] \<and>
      callbacks (snd (stop cw1)) = []" by simp
  qed
  from 1 2 3 4 5 show ?thesis by blast
qed

text \<open>
  The example: \<open>start\<close> on a fresh compositor leaves the request with handle 1 pending;
  \<open>stop\<close> removes it, and the next display refresh changes nothing.
\<close>

theorem stop_cancels_at_once_witness:
  "callbacks (snd (fresh_compositor, example_window)) = [] \<and>
   start 960 540 example_input (fresh_compositor, example_window) =
     Inr (projr (start 960 540 example_input (fresh_compositor, example_window))) \<and>
   callbacks (snd (projr (start 960 540 example_input (fresh_compositor, example_window)))) =
     [(1, 960, 540)] \<and>
   callbacks (snd (stop (projr (start 960 540 example_input
     (fresh_compositor, example_window))))) = [] \<and>
   \<not> isActive (fst (stop (projr (start 960 540 example_input
     (fresh_compositor, example_window))))) \<and>
   tick example_input (stop (projr (start 960 540 example_input
     (fresh_compositor, example_window)))) =
     Inr (stop (projr (start 960 540 example_input (fresh_compositor, example_window))))"
proof -
  let ?cw = "(fresh_compositor, example_window)"
  let ?r = "start 960 540 example_input ?cw"
  have e: "callbacks (snd ?cw) = []" and l: "lastHandle (snd ?cw) = 0"
    by (simp_all add: example_window_def)
  have "\<not> isl ?r"
    by code_simp
  then have s: "?r = Inr (projr ?r)"
    by (cases ?r) simp_all
  from stop_cancels_at_once [of "projr ?r" 960 540 example_input]
  have 1: "\<not> isActive (fst (stop (projr ?r)))"
    and 4: "tick example_input (stop (projr ?r)) =
              Inr (fst (stop (projr ?r)), (snd (stop (projr ?r)))\<lparr>callbacks := []\<rparr>)"
    by blast+
  from stop_cancels_at_once [of ?cw 960 540 example_input "projr ?r"] e s
  have 5: "callbacks (snd (projr ?r)) = [(Suc (lastHandle (snd ?cw)), 960, 540)]"
    and 6: "callbacks (snd (stop (projr ?r))) = []"
    by blast+
  from 6 have "(snd (stop (projr ?r)))\<lparr>callbacks := []\<rparr> = snd (stop (projr ?r))"
    by simp
  with 4 have 7: "tick example_input (stop (projr ?r)) = Inr (stop (projr ?r))"
    by simp
  from 5 l have 8: "callbacks (snd (projr ?r)) = [(1, 960, 540)]"
    by simp
  from e s 8 6 1 7 show ?thesis by blast
qed

text \<open>
  No draw tick is scheduled once \<open>stop\<close> has returned: the flag is not left to be found by
  the tick that was pending, since that tick is cancelled.
\<close>

theorem stop_never_immediate_counterexample:
  "\<not> isl (start 960 540 example_input (fresh_compositor, example_window)) \<and>
   isActive (fst (projr (start 960 540 example_input (fresh_compositor, example_window)))) \<and>
   callbacks (snd (projr (start 960 540 example_input (fresh_compositor, example_window)))) =
     [(1, 960, 540)] \<and>
   callbacks (snd (stop (projr (start 960 540 example_input
     (fresh_compositor, example_window))))) = []"
  by code_simp

end
